theory Spec2Isabelle
  imports Main
begin

section \<open>Python values, exceptions and the library boundary\<close>

text \<open>
  The development embeds \<^verbatim>\<open>rest_framework/fields.py\<close>. Python values that fields read
  and produce are the type \<open>pyval\<close>; \<open>Empty\<close> is the class \<^verbatim>\<open>empty\<close> of the module,
  the marker for "no data provided", distinct from \<open>PNone\<close>.
\<close>

datatype pydate = Date int int int

datatype pytime = Time int int int int

text \<open>A time zone is kept as its UTC offset in minutes.\<close>

type_synonym tzinfo = int

datatype pydatetime = DateTime pydate pytime "tzinfo option"

text \<open>
  A \<^verbatim>\<open>decimal.Decimal\<close> as \<^verbatim>\<open>as_tuple()\<close> shows it: sign, digit tuple and exponent
  for a finite number, and the special values.
\<close>

datatype pydecimal =
    Finite bool "nat list" int
  | Infinity bool
  | NaN bool

text \<open>The argument of \<open>NaN\<close> tells the signalling NaN (\<^verbatim>\<open>sNaN\<close>) from the quiet one.\<close>

datatype pyval =
    Empty
  | PNone
  | PBool bool
  | PInt int
  | PStr string
  | PDecimal pydecimal
  | PDate pydate
  | PTime pytime
  | PDateTime pydatetime
  | PList "pyval list"
  | PTuple "pyval list"

datatype exc =
    ValidationError "string list"
  | SkipField
  | AssertionError string
  | NotImplementedError string
  | KeyError string
  | ValueError
  | TypeError
  | AttributeError string
  | ObjectDoesNotExist
  | DecimalException
  | OtherError string

text \<open>
  Functions the module imports from the Python library, Django and the rest of the
  package are parameters of the model, collected in one record. Every function of the
  embedding that reaches one of them takes this record as its first argument.
  \<^item> \<open>text_type\<close> is \<^verbatim>\<open>six.text_type\<close>, \<open>smart_text\<close> is \<^verbatim>\<open>compat.smart_text\<close>;
  \<^item> \<open>str_format\<close> is \<^verbatim>\<open>str.format(**kwargs)\<close>, which raises on a template it cannot fill;
  \<^item> \<open>int_of_text\<close> is the builtin \<^verbatim>\<open>int\<close> on a string, \<open>Decimal\<close> the constructor
    \<^verbatim>\<open>decimal.Decimal\<close> on a string;
  \<^item> \<open>is_html_input\<close> and \<open>parse_html_list\<close> are those of \<^verbatim>\<open>rest_framework.utils.html\<close>;
  \<^item> \<open>parse_datetime\<close>, \<open>parse_date\<close>, \<open>parse_time\<close> are Django's ISO-8601 parsers (they
    return \<^verbatim>\<open>None\<close> on no match) and \<open>strptime\<close> is \<^verbatim>\<open>datetime.datetime.strptime\<close>;
  \<^item> \<open>datetime_formats\<close>, \<open>date_formats\<close>, \<open>time_formats\<close> are those of
    \<^verbatim>\<open>rest_framework.utils.humanize_datetime\<close>;
  \<^item> \<open>is_aware\<close>, \<open>make_aware\<close>, \<open>make_naive\<close> are those of \<^verbatim>\<open>django.utils.timezone\<close>,
    the last one applied to \<^verbatim>\<open>timezone.UTC()\<close>;
  \<^item> \<open>SortedDict\<close> is Django's ordered dictionary built from a list of pairs, given by
    the items it ends up with, in key order (it raises on a key that cannot be hashed);
  \<^item> \<open>MaxValueValidator\<close> and \<open>MinValueValidator\<close> are Django's, built from the limit and
    the message;
  \<^item> \<open>ISO_8601\<close> is the constant of that name of the package.
\<close>

record ext =
  text_type :: "pyval \<Rightarrow> string"
  smart_text :: "pyval \<Rightarrow> string"
  str_format :: "string \<Rightarrow> (string \<times> pyval) list \<Rightarrow> exc + string"
  int_of_text :: "string \<Rightarrow> exc + int"
  Decimal :: "string \<Rightarrow> exc + pydecimal"
  is_html_input :: "pyval \<Rightarrow> bool"
  parse_html_list :: "pyval \<Rightarrow> pyval"
  parse_datetime :: "pyval \<Rightarrow> exc + pydatetime option"
  parse_date :: "pyval \<Rightarrow> exc + pydate option"
  parse_time :: "pyval \<Rightarrow> exc + pytime option"
  strptime :: "pyval \<Rightarrow> string \<Rightarrow> exc + pydatetime"
  datetime_formats :: "string list \<Rightarrow> string"
  date_formats :: "string list \<Rightarrow> string"
  time_formats :: "string list \<Rightarrow> string"
  is_aware :: "pydatetime \<Rightarrow> bool"
  make_aware :: "pydatetime \<Rightarrow> tzinfo \<Rightarrow> pydatetime"
  make_naive :: "pydatetime \<Rightarrow> pydatetime"
  SortedDict :: "(pyval \<times> pyval) list \<Rightarrow> exc + (pyval \<times> pyval) list"
  MaxValueValidator :: "pyval \<Rightarrow> string \<Rightarrow> pyval \<Rightarrow> exc option"
  MinValueValidator :: "pyval \<Rightarrow> string \<Rightarrow> pyval \<Rightarrow> exc option"
  ISO_8601 :: string

subsection \<open>String methods of Python used by the module\<close>

text \<open>Strings are ASCII texts; the methods below follow \<^verbatim>\<open>str\<close> on that range.\<close>

definition lower_char :: "char \<Rightarrow> char" where
  "lower_char c = (let n = (of_char c :: nat) in if 65 \<le> n \<and> n \<le> 90 then char_of (n + 32) else c)"

definition upper_char :: "char \<Rightarrow> char" where
  "upper_char c = (let n = (of_char c :: nat) in if 97 \<le> n \<and> n \<le> 122 then char_of (n - 32) else c)"

definition lower :: "string \<Rightarrow> string" where
  "lower s = map lower_char s"

definition capitalize :: "string \<Rightarrow> string" where
  "capitalize s = (case s of [] \<Rightarrow> [] | c # cs \<Rightarrow> upper_char c # map lower_char cs)"

text \<open>\<^verbatim>\<open>s.replace(a, b)\<close> for one-character \<^verbatim>\<open>a\<close> and \<^verbatim>\<open>b\<close>.\<close>

definition replace :: "char \<Rightarrow> char \<Rightarrow> string \<Rightarrow> string" where
  "replace a b s = map (\<lambda>c. if c = a then b else c) s"

text \<open>\<^verbatim>\<open>s.split(sep)\<close> for a one-character separator: never an empty list.\<close>

fun split :: "char \<Rightarrow> string \<Rightarrow> string list" where
  "split sep [] = [[]]"
| "split sep (c # cs) =
     (if c = sep then [] # split sep cs
      else (case split sep cs of [] \<Rightarrow> [[c]] | w # ws \<Rightarrow> (c # w) # ws))"

definition is_space :: "char \<Rightarrow> bool" where
  "is_space c = (let n = (of_char c :: nat) in (9 \<le> n \<and> n \<le> 13) \<or> (28 \<le> n \<and> n \<le> 32))"

definition strip :: "string \<Rightarrow> string" where
  "strip s = rev (dropWhile is_space (rev (dropWhile is_space s)))"

text \<open>\<^verbatim>\<open>type(data).__name__\<close>.\<close>

fun type_name :: "pyval \<Rightarrow> string" where
  "type_name Empty = ''type''"
| "type_name PNone = ''NoneType''"
| "type_name (PBool _) = ''bool''"
| "type_name (PInt _) = ''int''"
| "type_name (PStr _) = ''str''"
| "type_name (PDecimal _) = ''Decimal''"
| "type_name (PDate _) = ''date''"
| "type_name (PTime _) = ''time''"
| "type_name (PDateTime _) = ''datetime''"
| "type_name (PList _) = ''list''"
| "type_name (PTuple _) = ''tuple''"

text \<open>
  \<^verbatim>\<open>isinstance(data, type(''))\<close> and \<^verbatim>\<open>hasattr(data, '__iter__')\<close>; \<open>iter_items\<close> is
  what iterating the value yields.
\<close>

fun is_str :: "pyval \<Rightarrow> bool" where
  "is_str (PStr _) = True"
| "is_str _ = False"

fun has_iter :: "pyval \<Rightarrow> bool" where
  "has_iter (PStr _) = True"
| "has_iter (PList _) = True"
| "has_iter (PTuple _) = True"
| "has_iter _ = False"

fun iter_items :: "pyval \<Rightarrow> pyval list" where
  "iter_items (PList xs) = xs"
| "iter_items (PTuple xs) = xs"
| "iter_items (PStr s) = map (\<lambda>c. PStr [c]) s"
| "iter_items _ = []"

section \<open>The field and its construction\<close>

text \<open>
  A default is a plain value (\<open>Plain Empty\<close> when none was given) or a callable without
  arguments, kept as the outcome of calling it.
\<close>

datatype pydefault = Plain pyval | Callable "exc + pyval"

fun is_empty :: "pydefault \<Rightarrow> bool" where
  "is_empty (Plain Empty) = True"
| "is_empty _ = False"

text \<open>
  A validator is called on the native value and passes (\<open>None\<close>) or raises. The
  back-reference \<^verbatim>\<open>serializer_field\<close> that \<^verbatim>\<open>run_validators\<close> stores on a validator with
  \<^verbatim>\<open>requires_context\<close> is part of the validator's own closure here.
\<close>

type_synonym validator = "pyval \<Rightarrow> exc option"

text \<open>
  The object a field is bound to: its class name, its \<^verbatim>\<open>partial\<close> attribute when it has
  one, and its own parent.
\<close>

datatype pyparent = Parent string "bool option" "pyparent option"

record attrs =
  read_only :: bool
  write_only :: bool
  required :: bool
  default_val :: pydefault
  source :: "string option"
  label :: "string option"
  validators :: "validator list"
  allow_null :: bool
  field_name :: "string option"
  parent :: "pyparent option"
  source_attrs :: "string list option"
  error_messages :: "string \<rightharpoonup> string"

text \<open>
  The classes of the module that the development covers, each with the attributes its
  own \<^verbatim>\<open>__init__\<close> stores. \<open>OtherField\<close> is any further subclass that overrides
  \<^verbatim>\<open>to_internal_value\<close> only, given by its class name and that method.
\<close>

datatype field = Fld (attrs: attrs) (kind: kind)
and kind =
    BaseField
  | CharField (allow_blank: bool) (max_length: "int option") (min_length: "int option")
  | IntegerField
  | DecimalField (max_digits: "int option") (decimal_places: "int option")
  | DateTimeField (input_formats: "string list") (default_timezone: "tzinfo option")
  | DateField (input_formats: "string list")
  | TimeField (input_formats: "string list")
  | ChoiceField (choices: "(pyval \<times> pyval) list") (choice_strings_to_values: "string \<rightharpoonup> pyval")
  | ListField (child: field)
  | OtherField string "pyval \<Rightarrow> exc + pyval"

fun class_name :: "kind \<Rightarrow> string" where
  "class_name BaseField = ''Field''"
| "class_name (CharField _ _ _) = ''CharField''"
| "class_name IntegerField = ''IntegerField''"
| "class_name (DecimalField _ _) = ''DecimalField''"
| "class_name (DateTimeField _ _) = ''DateTimeField''"
| "class_name (DateField _) = ''DateField''"
| "class_name (TimeField _) = ''TimeField''"
| "class_name (ChoiceField _ _) = ''ChoiceField''"
| "class_name (ListField _) = ''ListField''"
| "class_name (OtherField n _) = n"

fun is_base :: "kind \<Rightarrow> bool" where
  "is_base BaseField = True"
| "is_base _ = False"

text \<open>The class attribute \<^verbatim>\<open>coerce_blank_to_null\<close>: only \<^verbatim>\<open>CharField\<close> turns it off.\<close>

fun coerce_blank_to_null :: "kind \<Rightarrow> bool" where
  "coerce_blank_to_null (CharField _ _ _) = False"
| "coerce_blank_to_null _ = True"

subsection \<open>Error message tables\<close>

definition Field_messages :: "string \<rightharpoonup> string" where
  "Field_messages =
     [''required'' \<mapsto> ''This field is required.'',
      ''null'' \<mapsto> ''This field may not be null.'']"

definition number_messages :: "string \<rightharpoonup> string" where
  "number_messages =
     [''max_value'' \<mapsto> ''Ensure this value is less than or equal to {max_value}.'',
      ''min_value'' \<mapsto> ''Ensure this value is greater than or equal to {min_value}.'']"

text \<open>The \<^verbatim>\<open>default_error_messages\<close> of each class itself.\<close>

fun default_error_messages :: "kind \<Rightarrow> string \<rightharpoonup> string" where
  "default_error_messages BaseField = Map.empty"
| "default_error_messages (CharField _ _ _) = [''blank'' \<mapsto> ''This field may not be blank.'']"
| "default_error_messages IntegerField =
     number_messages(''invalid'' \<mapsto> ''A valid integer is required.'')"
| "default_error_messages (DecimalField _ _) =
     number_messages
      (''invalid'' \<mapsto> ''A valid number is required.'',
       ''max_digits'' \<mapsto> ''Ensure that there are no more than {max_digits} digits in total.'',
       ''max_decimal_places'' \<mapsto>
          ''Ensure that there are no more than {max_decimal_places} decimal places.'',
       ''max_whole_digits'' \<mapsto>
          ''Ensure that there are no more than {max_whole_digits} digits before the decimal point.'')"
| "default_error_messages (DateTimeField _ _) =
     [''invalid'' \<mapsto> ''Datetime has wrong format. Use one of these formats instead: {format}'',
      ''date'' \<mapsto> ''Expected a datetime but got a date.'']"
| "default_error_messages (DateField _) =
     [''invalid'' \<mapsto> ''Date has wrong format. Use one of these formats instead: {format}'',
      ''datetime'' \<mapsto> ''Expected a date but got a datetime.'']"
| "default_error_messages (TimeField _) =
     [''invalid'' \<mapsto> ''Time has wrong format. Use one of these formats instead: {format}'']"
| "default_error_messages (ChoiceField _ _) =
     [''invalid_choice'' \<mapsto> ''`{input}` is not a valid choice.'']"
| "default_error_messages (ListField _) =
     [''not_a_list'' \<mapsto>
        ''Expected a list of items but got type `{input_type}`'']"
| "default_error_messages (OtherField _ _) = Map.empty"

subsection \<open>\<^verbatim>\<open>Field.__init__\<close>\<close>

definition NOT_READ_ONLY_WRITE_ONLY :: string where
  "NOT_READ_ONLY_WRITE_ONLY = ''May not set both `read_only` and `write_only`''"

definition NOT_READ_ONLY_REQUIRED :: string where
  "NOT_READ_ONLY_REQUIRED = ''May not set both `read_only` and `required`''"

definition NOT_READ_ONLY_DEFAULT :: string where
  "NOT_READ_ONLY_DEFAULT = ''May not set both `read_only` and `default`''"

definition NOT_REQUIRED_DEFAULT :: string where
  "NOT_REQUIRED_DEFAULT = ''May not set both `required` and `default`''"

definition USE_READONLYFIELD :: string where
  "USE_READONLYFIELD = ''Field(read_only=True) should be ReadOnlyField''"

text \<open>
  The keyword arguments of \<^verbatim>\<open>Field.__init__\<close>, with the defaults of its signature in
  \<open>no_kwargs\<close>. \<^verbatim>\<open>initial\<close>, \<^verbatim>\<open>help_text\<close> and \<^verbatim>\<open>style\<close> are presentation data that no
  method below reads; they are left out, as is the creation counter.
\<close>

record kwargs =
  kw_read_only :: bool
  kw_write_only :: bool
  kw_required :: "bool option"
  kw_default :: pydefault
  kw_source :: "string option"
  kw_label :: "string option"
  kw_error_messages :: "(string \<rightharpoonup> string) option"
  kw_validators :: "validator list"
  kw_allow_null :: bool

definition no_kwargs :: kwargs where
  "no_kwargs =
     \<lparr>kw_read_only = False, kw_write_only = False, kw_required = None,
      kw_default = Plain Empty, kw_source = None, kw_label = None,
      kw_error_messages = None, kw_validators = [], kw_allow_null = False\<rparr>"

text \<open>
  The messages collected along the method resolution order (every class modelled here
  derives from \<^verbatim>\<open>Field\<close> directly), then the \<^verbatim>\<open>error_messages\<close> argument on top.
\<close>

definition collect_messages :: "kind \<Rightarrow> (string \<rightharpoonup> string) option \<Rightarrow> string \<rightharpoonup> string" where
  "collect_messages k em =
     (Field_messages ++ default_error_messages k) ++ (case em of None \<Rightarrow> Map.empty | Some m \<Rightarrow> m)"

definition Field_init :: "kind \<Rightarrow> kwargs \<Rightarrow> exc + field" where
  "Field_init k kw =
     (let req = (case kw_required kw of
                   None \<Rightarrow> is_empty (kw_default kw) \<and> \<not> kw_read_only kw
                 | Some r \<Rightarrow> r)
      in
        if kw_read_only kw \<and> kw_write_only kw then Inl (AssertionError NOT_READ_ONLY_WRITE_ONLY)
        else if kw_read_only kw \<and> req then Inl (AssertionError NOT_READ_ONLY_REQUIRED)
        else if kw_read_only kw \<and> \<not> is_empty (kw_default kw)
          then Inl (AssertionError NOT_READ_ONLY_DEFAULT)
        else if req \<and> \<not> is_empty (kw_default kw) then Inl (AssertionError NOT_REQUIRED_DEFAULT)
        else if kw_read_only kw \<and> is_base k then Inl (AssertionError USE_READONLYFIELD)
        else Inr (Fld
          \<lparr>read_only = kw_read_only kw,
           write_only = kw_write_only kw,
           required = req,
           default_val = kw_default kw,
           source = kw_source kw,
           label = kw_label kw,
           validators = kw_validators kw,
           allow_null = kw_allow_null kw,
           field_name = None,
           parent = None,
           source_attrs = None,
           error_messages = collect_messages k (kw_error_messages kw)\<rparr> k))"

subsection \<open>\<^verbatim>\<open>Field.bind\<close>\<close>

definition redundant_source :: "string \<Rightarrow> string \<Rightarrow> string \<Rightarrow> string" where
  "redundant_source fname cls pcls =
     ''It is redundant to specify `source='' @ [CHR 0x27] @ fname @ [CHR 0x27] @ ''` on field '' @
     [CHR 0x27] @ cls @ [CHR 0x27] @ '' in serializer '' @ [CHR 0x27] @ pcls @ [CHR 0x27] @
     '', because it is the same as the field name. Remove the `source` keyword argument.''"

fun parent_class :: "pyparent \<Rightarrow> string" where
  "parent_class (Parent n _ _) = n"

definition bind :: "string \<Rightarrow> pyparent \<Rightarrow> field \<Rightarrow> exc + field" where
  "bind fname par f =
     (let a = attrs f in
        if source a = Some fname
          then Inl (AssertionError (redundant_source fname (class_name (kind f)) (parent_class par)))
        else
          let a1 = a\<lparr>field_name := Some fname, parent := Some par\<rparr>;
              a2 = (case label a1 of
                      None \<Rightarrow> a1\<lparr>label := Some (capitalize (replace (CHR ''_'') (CHR '' '') fname))\<rparr>
                    | Some _ \<Rightarrow> a1);
              src = (case source a2 of None \<Rightarrow> fname | Some s \<Rightarrow> s);
              a3 = a2\<lparr>source := Some src\<rparr>;
              a4 = a3\<lparr>source_attrs := Some (if src = ''*'' then [] else split (CHR ''.'') src)\<rparr>
          in Inr (Fld a4 (kind f)))"

section \<open>Validation\<close>

subsection \<open>\<^verbatim>\<open>Field.fail\<close>, \<^verbatim>\<open>Field.get_default\<close>, \<^verbatim>\<open>Field.root\<close>\<close>

definition MISSING_ERROR_MESSAGE :: "string \<Rightarrow> string \<Rightarrow> string" where
  "MISSING_ERROR_MESSAGE cls key =
     ''ValidationError raised by `'' @ cls @ ''`, but error key `'' @ key @
     ''` does not exist in the `error_messages` dictionary.''"

definition fail :: "ext \<Rightarrow> field \<Rightarrow> string \<Rightarrow> (string \<times> pyval) list \<Rightarrow> exc + 'a" where
  "fail e f key kws =
     (case error_messages (attrs f) key of
        None \<Rightarrow> Inl (AssertionError (MISSING_ERROR_MESSAGE (class_name (kind f)) key))
      | Some msg \<Rightarrow>
          (case str_format e msg kws of
             Inl x \<Rightarrow> Inl x
           | Inr s \<Rightarrow> Inl (ValidationError [s])))"

definition get_default :: "field \<Rightarrow> exc + pyval" where
  "get_default f =
     (if is_empty (default_val (attrs f)) then Inl SkipField
      else (case default_val (attrs f) of
              Callable r \<Rightarrow> r
            | Plain v \<Rightarrow> Inr v))"

text \<open>
  \<^verbatim>\<open>Field.root\<close> climbs the parents; \<open>root_partial\<close> is
  \<^verbatim>\<open>getattr(self.root, 'partial', False)\<close>. A field without a parent is its own root
  and has no such attribute.
\<close>

fun root :: "pyparent \<Rightarrow> pyparent" where
  "root (Parent n p None) = Parent n p None"
| "root (Parent n p (Some q)) = root q"

fun partial_attr :: "pyparent \<Rightarrow> bool" where
  "partial_attr (Parent _ None _) = False"
| "partial_attr (Parent _ (Some b) _) = b"

definition root_partial :: "field \<Rightarrow> bool" where
  "root_partial f =
     (case parent (attrs f) of
        None \<Rightarrow> False
      | Some p \<Rightarrow> partial_attr (root p))"

subsection \<open>\<^verbatim>\<open>Field.run_validators\<close>\<close>

text \<open>
  The loop over \<^verbatim>\<open>self.validators\<close> with the list \<^verbatim>\<open>errors\<close> as accumulator: a
  \<^verbatim>\<open>ValidationError\<close> is caught and its messages appended, any other exception leaves
  the loop at once.
\<close>

fun validators_loop :: "validator list \<Rightarrow> pyval \<Rightarrow> string list \<Rightarrow> exc + string list" where
  "validators_loop [] v errors = Inr errors"
| "validators_loop (vd # vds) v errors =
     (case vd v of
        None \<Rightarrow> validators_loop vds v errors
      | Some (ValidationError msgs) \<Rightarrow> validators_loop vds v (errors @ msgs)
      | Some x \<Rightarrow> Inl x)"

definition run_validators :: "field \<Rightarrow> pyval \<Rightarrow> exc + unit" where
  "run_validators f v =
     (case validators_loop (validators (attrs f)) v [] of
        Inl x \<Rightarrow> Inl x
      | Inr errors \<Rightarrow> if errors \<noteq> [] then Inl (ValidationError errors) else Inr ())"

text \<open>\<^verbatim>\<open>Field.validate\<close> is a hook whose body is \<^verbatim>\<open>pass\<close>.\<close>

definition validate :: "field \<Rightarrow> pyval \<Rightarrow> exc + unit" where
  "validate f v = Inr ()"

subsection \<open>\<^verbatim>\<open>to_internal_value\<close> of the scalar classes\<close>

definition CharField_to_internal_value :: "ext \<Rightarrow> field \<Rightarrow> pyval \<Rightarrow> exc + pyval" where
  "CharField_to_internal_value e f data = Inr (PStr (text_type e data))"

definition IntegerField_to_internal_value :: "ext \<Rightarrow> field \<Rightarrow> pyval \<Rightarrow> exc + pyval" where
  "IntegerField_to_internal_value e f data =
     (case int_of_text e (text_type e data) of
        Inl ValueError \<Rightarrow> fail e f ''invalid'' []
      | Inl TypeError \<Rightarrow> fail e f ''invalid'' []
      | Inl x \<Rightarrow> Inl x
      | Inr n \<Rightarrow> Inr (PInt n))"

text \<open>
  \<^verbatim>\<open>DecimalField.to_internal_value\<close>. The comparison \<^verbatim>\<open>value != value\<close> stands after
  the \<^verbatim>\<open>try\<close>: on a quiet NaN it is true; on a signalling NaN the comparison itself raises
  \<^verbatim>\<open>decimal.InvalidOperation\<close>, a \<^verbatim>\<open>DecimalException\<close> that nothing catches there; on
  every other value it is false. Membership in \<^verbatim>\<open>(Decimal('Inf'), Decimal('-Inf'))\<close>
  holds of the two infinities.
\<close>

definition DecimalField_to_internal_value :: "ext \<Rightarrow> field \<Rightarrow> pyval \<Rightarrow> exc + pyval" where
  "DecimalField_to_internal_value e f v =
     (case Decimal e (strip (smart_text e v)) of
        Inl DecimalException \<Rightarrow> fail e f ''invalid'' []
      | Inl x \<Rightarrow> Inl x
      | Inr (NaN signalling) \<Rightarrow>
          if signalling then Inl DecimalException else fail e f ''invalid'' []
      | Inr (Infinity s) \<Rightarrow> fail e f ''invalid'' []
      | Inr (Finite sg digittuple exponent) \<Rightarrow>
          (let decimals = \<bar>exponent\<bar>;
               digits0 = int (length digittuple);
               digits = (if decimals > digits0 then decimals else digits0);
               whole_digits = digits - decimals;
               md = max_digits (kind f);
               dp = decimal_places (kind f)
           in
             if md \<noteq> None \<and> digits > the md
               then fail e f ''max_digits'' [(''max_digits'', PInt (the md))]
             else if dp \<noteq> None \<and> decimals > the dp
               then fail e f ''max_decimal_places'' [(''max_decimal_places'', PInt (the dp))]
             else if md \<noteq> None \<and> dp \<noteq> None \<and> whole_digits > the md - the dp
               then fail e f ''max_whole_digits'' [(''max_whole_digits'', PInt (the md - the dp))]
             else Inr (PDecimal (Finite sg digittuple exponent))))"

subsection \<open>\<^verbatim>\<open>to_internal_value\<close> of the date and time classes\<close>

text \<open>\<^verbatim>\<open>DateTimeField.enforce_timezone\<close>.\<close>

definition enforce_timezone :: "ext \<Rightarrow> tzinfo option \<Rightarrow> pydatetime \<Rightarrow> pydatetime" where
  "enforce_timezone e tz v =
     (if tz \<noteq> None \<and> \<not> is_aware e v then make_aware e v (the tz)
      else if tz = None \<and> is_aware e v then make_naive e v
      else v)"

text \<open>\<^verbatim>\<open>parsed.date()\<close> and \<^verbatim>\<open>parsed.time()\<close>.\<close>

fun date_of :: "pydatetime \<Rightarrow> pydate" where
  "date_of (DateTime d t z) = d"

fun time_of :: "pydatetime \<Rightarrow> pytime" where
  "time_of (DateTime d t z) = t"

text \<open>
  The body of the loop \<^verbatim>\<open>for format in self.input_formats\<close> of the three classes, for
  one format: \<open>Inr (Some r)\<close> when the body returns \<open>r\<close>, \<open>Inr None\<close> when it falls through
  to the next format (\<^verbatim>\<open>ValueError\<close> or \<^verbatim>\<open>TypeError\<close> caught, or the ISO parser gave
  \<^verbatim>\<open>None\<close>), \<open>Inl x\<close> when an exception the body does not catch leaves it.
\<close>

fun try_format :: "ext \<Rightarrow> kind \<Rightarrow> pyval \<Rightarrow> string \<Rightarrow> exc + pyval option" where
  "try_format e (DateTimeField fmts tz) v fmt =
     (if lower fmt = ISO_8601 e then
        (case parse_datetime e v of
           Inl ValueError \<Rightarrow> Inr None
         | Inl TypeError \<Rightarrow> Inr None
         | Inl x \<Rightarrow> Inl x
         | Inr None \<Rightarrow> Inr None
         | Inr (Some parsed) \<Rightarrow> Inr (Some (PDateTime (enforce_timezone e tz parsed))))
      else
        (case strptime e v fmt of
           Inl ValueError \<Rightarrow> Inr None
         | Inl TypeError \<Rightarrow> Inr None
         | Inl x \<Rightarrow> Inl x
         | Inr parsed \<Rightarrow> Inr (Some (PDateTime (enforce_timezone e tz parsed)))))"
| "try_format e (DateField fmts) v fmt =
     (if lower fmt = ISO_8601 e then
        (case parse_date e v of
           Inl ValueError \<Rightarrow> Inr None
         | Inl TypeError \<Rightarrow> Inr None
         | Inl x \<Rightarrow> Inl x
         | Inr None \<Rightarrow> Inr None
         | Inr (Some parsed) \<Rightarrow> Inr (Some (PDate parsed)))
      else
        (case strptime e v fmt of
           Inl ValueError \<Rightarrow> Inr None
         | Inl TypeError \<Rightarrow> Inr None
         | Inl x \<Rightarrow> Inl x
         | Inr parsed \<Rightarrow> Inr (Some (PDate (date_of parsed)))))"
| "try_format e (TimeField fmts) v fmt =
     (if lower fmt = ISO_8601 e then
        (case parse_time e v of
           Inl ValueError \<Rightarrow> Inr None
         | Inl TypeError \<Rightarrow> Inr None
         | Inl x \<Rightarrow> Inl x
         | Inr None \<Rightarrow> Inr None
         | Inr (Some parsed) \<Rightarrow> Inr (Some (PTime parsed)))
      else
        (case strptime e v fmt of
           Inl ValueError \<Rightarrow> Inr None
         | Inl TypeError \<Rightarrow> Inr None
         | Inl x \<Rightarrow> Inl x
         | Inr parsed \<Rightarrow> Inr (Some (PTime (time_of parsed)))))"
| "try_format e _ v fmt = Inr None"

text \<open>The loop itself: \<open>Inr None\<close> when it runs off the end of the formats.\<close>

fun formats_loop :: "(string \<Rightarrow> exc + pyval option) \<Rightarrow> string list \<Rightarrow> exc + pyval option" where
  "formats_loop body [] = Inr None"
| "formats_loop body (fmt # rest) =
     (case body fmt of
        Inr None \<Rightarrow> formats_loop body rest
      | r \<Rightarrow> r)"

definition DateTimeField_to_internal_value :: "ext \<Rightarrow> field \<Rightarrow> pyval \<Rightarrow> exc + pyval" where
  "DateTimeField_to_internal_value e f v =
     (case v of
        PDate _ \<Rightarrow> fail e f ''date'' []
      | PDateTime d \<Rightarrow> Inr (PDateTime (enforce_timezone e (default_timezone (kind f)) d))
      | _ \<Rightarrow>
          (case formats_loop (try_format e (kind f) v) (input_formats (kind f)) of
             Inl x \<Rightarrow> Inl x
           | Inr (Some r) \<Rightarrow> Inr r
           | Inr None \<Rightarrow>
               fail e f ''invalid''
                 [(''format'', PStr (datetime_formats e (input_formats (kind f))))]))"

definition DateField_to_internal_value :: "ext \<Rightarrow> field \<Rightarrow> pyval \<Rightarrow> exc + pyval" where
  "DateField_to_internal_value e f v =
     (case v of
        PDateTime _ \<Rightarrow> fail e f ''datetime'' []
      | PDate d \<Rightarrow> Inr (PDate d)
      | _ \<Rightarrow>
          (case formats_loop (try_format e (kind f) v) (input_formats (kind f)) of
             Inl x \<Rightarrow> Inl x
           | Inr (Some r) \<Rightarrow> Inr r
           | Inr None \<Rightarrow>
               fail e f ''invalid''
                 [(''format'', PStr (date_formats e (input_formats (kind f))))]))"

definition TimeField_to_internal_value :: "ext \<Rightarrow> field \<Rightarrow> pyval \<Rightarrow> exc + pyval" where
  "TimeField_to_internal_value e f v =
     (case v of
        PTime t \<Rightarrow> Inr (PTime t)
      | _ \<Rightarrow>
          (case formats_loop (try_format e (kind f) v) (input_formats (kind f)) of
             Inl x \<Rightarrow> Inl x
           | Inr (Some r) \<Rightarrow> Inr r
           | Inr None \<Rightarrow>
               fail e f ''invalid''
                 [(''format'', PStr (time_formats e (input_formats (kind f))))]))"

subsection \<open>\<^verbatim>\<open>ChoiceField\<close>\<close>

text \<open>
  \<^verbatim>\<open>isinstance(item, (list, tuple)) and len(item) == 2\<close>, and the unpacking
  \<^verbatim>\<open>key, display_value = item\<close> of such an item.
\<close>

fun is_pair :: "pyval \<Rightarrow> bool" where
  "is_pair (PList [a, b]) = True"
| "is_pair (PTuple [a, b]) = True"
| "is_pair _ = False"

fun unpack :: "pyval \<Rightarrow> pyval \<times> pyval" where
  "unpack (PList [a, b]) = (a, b)"
| "unpack (PTuple [a, b]) = (a, b)"
| "unpack v = (v, v)"

text \<open>
  \<^verbatim>\<open>dict([(six.text_type(key), key) for key in keys])\<close>: a later key replaces an earlier
  one with the same text.
\<close>

definition strings_to_values :: "ext \<Rightarrow> pyval list \<Rightarrow> string \<rightharpoonup> pyval" where
  "strings_to_values e keys = fold (\<lambda>key m. m(text_type e key \<mapsto> key)) keys Map.empty"

definition ChoiceField_init :: "ext \<Rightarrow> pyval list \<Rightarrow> kwargs \<Rightarrow> exc + field" where
  "ChoiceField_init e chs kw =
     (let items = (if list_all is_pair chs then map unpack chs else map (\<lambda>item. (item, item)) chs)
      in case SortedDict e items of
           Inl x \<Rightarrow> Inl x
         | Inr cs \<Rightarrow> Field_init (ChoiceField cs (strings_to_values e (map fst cs))) kw)"

definition ChoiceField_to_internal_value :: "ext \<Rightarrow> field \<Rightarrow> pyval \<Rightarrow> exc + pyval" where
  "ChoiceField_to_internal_value e f data =
     (case choice_strings_to_values (kind f) (text_type e data) of
        Some v \<Rightarrow> Inr v
      | None \<Rightarrow> fail e f ''invalid_choice'' [(''input'', data)])"

definition ChoiceField_to_representation :: "ext \<Rightarrow> field \<Rightarrow> pyval \<Rightarrow> exc + pyval" where
  "ChoiceField_to_representation e f v =
     (case choice_strings_to_values (kind f) (text_type e v) of
        Some k \<Rightarrow> Inr k
      | None \<Rightarrow> Inl (KeyError (text_type e v)))"

subsection \<open>The number classes' \<^verbatim>\<open>__init__\<close>\<close>

text \<open>
  \<^verbatim>\<open>IntegerField.__init__\<close> and \<^verbatim>\<open>DecimalField.__init__\<close> end with the same two
  statements, which append the limit validators.
\<close>

definition append_validator :: "validator \<Rightarrow> field \<Rightarrow> field" where
  "append_validator vd f = Fld ((attrs f)\<lparr>validators := validators (attrs f) @ [vd]\<rparr>) (kind f)"

definition add_limit ::
  "ext \<Rightarrow> string \<Rightarrow> (pyval \<Rightarrow> string \<Rightarrow> validator) \<Rightarrow> pyval option \<Rightarrow> field \<Rightarrow> exc + field" where
  "add_limit e key mk limit f =
     (case limit of
        None \<Rightarrow> Inr f
      | Some l \<Rightarrow>
          (case error_messages (attrs f) key of
             None \<Rightarrow> Inl (KeyError key)
           | Some msg \<Rightarrow>
               (case str_format e msg [(key, l)] of
                  Inl x \<Rightarrow> Inl x
                | Inr message \<Rightarrow> Inr (append_validator (mk l message) f))))"

definition add_limits :: "ext \<Rightarrow> pyval option \<Rightarrow> pyval option \<Rightarrow> field \<Rightarrow> exc + field" where
  "add_limits e max_value min_value f =
     (case add_limit e ''max_value'' (MaxValueValidator e) max_value f of
        Inl x \<Rightarrow> Inl x
      | Inr f1 \<Rightarrow> add_limit e ''min_value'' (MinValueValidator e) min_value f1)"

definition IntegerField_init :: "ext \<Rightarrow> pyval option \<Rightarrow> pyval option \<Rightarrow> kwargs \<Rightarrow> exc + field" where
  "IntegerField_init e max_value min_value kw =
     (case Field_init IntegerField kw of
        Inl x \<Rightarrow> Inl x
      | Inr f \<Rightarrow> add_limits e max_value min_value f)"

definition DecimalField_init ::
  "ext \<Rightarrow> int option \<Rightarrow> int option \<Rightarrow> pyval option \<Rightarrow> pyval option \<Rightarrow> kwargs \<Rightarrow> exc + field" where
  "DecimalField_init e md dp max_value min_value kw =
     (case Field_init (DecimalField md dp) kw of
        Inl x \<Rightarrow> Inl x
      | Inr f \<Rightarrow> add_limits e max_value min_value f)"

subsection \<open>\<^verbatim>\<open>ListField\<close>\<close>

text \<open>
  The field seen as the parent of its child: a field has no \<^verbatim>\<open>partial\<close> attribute.
  \<^verbatim>\<open>ListField.__init__\<close> binds the child to the list field itself; the child keeps a
  reference, so what the child later sees as its parent is the list field as it is then.
  \<open>with_parent\<close> gives the child that view when the list field validates an element.
\<close>

definition as_parent :: "field \<Rightarrow> pyparent" where
  "as_parent f = Parent (class_name (kind f)) None (parent (attrs f))"

definition with_parent :: "pyparent \<Rightarrow> field \<Rightarrow> field" where
  "with_parent p f = Fld ((attrs f)\<lparr>parent := Some p\<rparr>) (kind f)"

definition ListField_init :: "field option \<Rightarrow> kwargs \<Rightarrow> exc + field" where
  "ListField_init ch kw =
     (case ch of
        None \<Rightarrow> Inl (AssertionError ''`child` is a required argument.'')
      | Some c \<Rightarrow>
          (case Field_init (ListField c) kw of
             Inl x \<Rightarrow> Inl x
           | Inr f \<Rightarrow>
               (case bind [] (as_parent f) c of
                  Inl x \<Rightarrow> Inl x
                | Inr c' \<Rightarrow> Inr (Fld (attrs f) (ListField c')))))"

text \<open>
  The list comprehension \<^verbatim>\<open>[self.child.run_validation(item) for item in data]\<close>: the
  calls run in order, and the first exception leaves the comprehension.
\<close>

fun comprehension :: "('a \<Rightarrow> exc + 'b) \<Rightarrow> 'a list \<Rightarrow> exc + 'b list" where
  "comprehension g [] = Inr []"
| "comprehension g (x # xs) =
     (case g x of
        Inl err \<Rightarrow> Inl err
      | Inr y \<Rightarrow>
          (case comprehension g xs of
             Inl err \<Rightarrow> Inl err
           | Inr ys \<Rightarrow> Inr (y # ys)))"

lemma comprehension_cong [fundef_cong]:
  "xs = ys \<Longrightarrow> (\<And>x. x \<in> set ys \<Longrightarrow> g x = h x) \<Longrightarrow> comprehension g xs = comprehension h ys"
  by (induction ys arbitrary: xs) (auto split: sum.splits)

lemma size_with_parent [simp]: "size (with_parent p f) = size f"
  by (cases f) (simp add: with_parent_def)

subsection \<open>\<^verbatim>\<open>run_validation\<close>\<close>

text \<open>
  \<open>run_validation\<close> is the method as Python dispatches it: \<^verbatim>\<open>CharField\<close> overrides it
  and calls the base method, \<open>Field_run_validation\<close>; every other class inherits the base
  method. \<open>to_internal_value\<close> dispatches on the class likewise.
\<close>

function run_validation :: "ext \<Rightarrow> field \<Rightarrow> pyval \<Rightarrow> exc + pyval"
  and Field_run_validation :: "ext \<Rightarrow> field \<Rightarrow> pyval \<Rightarrow> exc + pyval"
  and to_internal_value :: "ext \<Rightarrow> field \<Rightarrow> pyval \<Rightarrow> exc + pyval"
where
  "run_validation e f data =
     (case kind f of
        CharField ab mx mn \<Rightarrow>
          (if data = PStr [] then (if \<not> ab then fail e f ''blank'' [] else Inr (PStr []))
           else Field_run_validation e f data)
      | _ \<Rightarrow> Field_run_validation e f data)"
| "Field_run_validation e f data =
     (if data = Empty then
        (if root_partial f then Inl SkipField
         else if required (attrs f) then fail e f ''required'' []
         else get_default f)
      else
        (let data' = (if data = PStr [] \<and> coerce_blank_to_null (kind f) then PNone else data)
         in if data' = PNone then
              (if \<not> allow_null (attrs f) then fail e f ''null'' [] else Inr PNone)
            else
              (case to_internal_value e f data' of
                 Inl x \<Rightarrow> Inl x
               | Inr v \<Rightarrow>
                   (case run_validators f v of
                      Inl x \<Rightarrow> Inl x
                    | Inr _ \<Rightarrow>
                        (case validate f v of
                           Inl x \<Rightarrow> Inl x
                         | Inr _ \<Rightarrow> Inr v)))))"
| "to_internal_value e (Fld a BaseField) data =
     Inl (NotImplementedError ''to_internal_value() must be implemented.'')"
| "to_internal_value e (Fld a (CharField ab mx mn)) data =
     CharField_to_internal_value e (Fld a (CharField ab mx mn)) data"
| "to_internal_value e (Fld a IntegerField) data =
     IntegerField_to_internal_value e (Fld a IntegerField) data"
| "to_internal_value e (Fld a (DecimalField md dp)) data =
     DecimalField_to_internal_value e (Fld a (DecimalField md dp)) data"
| "to_internal_value e (Fld a (DateTimeField fmts tz)) data =
     DateTimeField_to_internal_value e (Fld a (DateTimeField fmts tz)) data"
| "to_internal_value e (Fld a (DateField fmts)) data =
     DateField_to_internal_value e (Fld a (DateField fmts)) data"
| "to_internal_value e (Fld a (TimeField fmts)) data =
     TimeField_to_internal_value e (Fld a (TimeField fmts)) data"
| "to_internal_value e (Fld a (ChoiceField cs csv)) data =
     ChoiceField_to_internal_value e (Fld a (ChoiceField cs csv)) data"
| "to_internal_value e (Fld a (ListField c)) data =
     (let data' = (if is_html_input e data then parse_html_list e data else data)
      in if is_str data' \<or> \<not> has_iter data'
           then fail e (Fld a (ListField c)) ''not_a_list'' [(''input_type'', PStr (type_name data'))]
         else
           (case comprehension
                   (run_validation e (with_parent (as_parent (Fld a (ListField c))) c))
                   (iter_items data') of
              Inl x \<Rightarrow> Inl x
            | Inr vs \<Rightarrow> Inr (PList vs)))"
| "to_internal_value e (Fld a (OtherField n g)) data = g data"
  by pat_completeness auto
termination
  by (relation "measure (\<lambda>s. case s of
         Inl (e, f, d) \<Rightarrow> 3 * size f + 2
       | Inr (Inl (e, f, d)) \<Rightarrow> 3 * size f + 1
       | Inr (Inr (e, f, d)) \<Rightarrow> 3 * size f)") auto

section \<open>The attribute path resolver\<close>

text \<open>
  An instance is a primitive value or an object. An object has attributes, each giving a
  value or raising when read, and, when it supports \<^verbatim>\<open>obj[key]\<close>, items that do
  likewise. A dictionary is an object with items; the attributes of primitive values
  are not modelled, so reading one raises \<^verbatim>\<open>AttributeError\<close>.
\<close>

datatype inst =
    Prim pyval
  | Obj "(string \<times> attr) list" "(string \<times> attr) list option"
and attr = Has inst | Raises exc

definition no_attribute :: "string \<Rightarrow> exc" where
  "no_attribute name = AttributeError (''object has no attribute '' @ name)"

fun getattr :: "inst \<Rightarrow> string \<Rightarrow> exc + inst" where
  "getattr (Prim v) name = Inl (no_attribute name)"
| "getattr (Obj ats its) name =
     (case map_of ats name of
        None \<Rightarrow> Inl (no_attribute name)
      | Some (Has v) \<Rightarrow> Inr v
      | Some (Raises x) \<Rightarrow> Inl x)"

fun getitem :: "inst \<Rightarrow> string \<Rightarrow> exc + inst" where
  "getitem (Prim v) key = Inl TypeError"
| "getitem (Obj ats None) key = Inl TypeError"
| "getitem (Obj ats (Some its)) key =
     (case map_of its key of
        None \<Rightarrow> Inl (KeyError key)
      | Some (Has v) \<Rightarrow> Inr v
      | Some (Raises x) \<Rightarrow> Inl x)"

fun get_attribute :: "inst \<Rightarrow> string list \<Rightarrow> exc + inst" where
  "get_attribute instance [] = Inr instance"
| "get_attribute instance (attr # attrs') =
     (case getattr instance attr of
        Inr v \<Rightarrow> get_attribute v attrs'
      | Inl ObjectDoesNotExist \<Rightarrow> Inr (Prim PNone)
      | Inl (AttributeError m) \<Rightarrow>
          (case getitem instance attr of
             Inr v \<Rightarrow> Inr v
           | Inl (KeyError k) \<Rightarrow> Inl (AttributeError m)
           | Inl TypeError \<Rightarrow> Inl (AttributeError m)
           | Inl (AttributeError m') \<Rightarrow> Inl (AttributeError m)
           | Inl x \<Rightarrow> Inl x)
      | Inl x \<Rightarrow> Inl x)"

section \<open>A reference environment\<close>

text \<open>
  The worked examples below need the library functions at concrete inputs. \<open>py_ext\<close>
  gives them: \<^verbatim>\<open>str\<close>, \<^verbatim>\<open>str.format\<close>, \<^verbatim>\<open>int\<close> and \<^verbatim>\<open>decimal.Decimal\<close> on the
  ranges described with each function, and the date and time parsers by a table of
  their results on the inputs of the examples.
\<close>

definition is_digit :: "char \<Rightarrow> bool" where
  "is_digit c = (let n = (of_char c :: nat) in 48 \<le> n \<and> n \<le> 57)"

definition digit_val :: "char \<Rightarrow> nat" where
  "digit_val c = of_char c - 48"

definition digits_val :: "string \<Rightarrow> nat" where
  "digits_val s = foldl (\<lambda>acc c. 10 * acc + digit_val c) 0 s"

fun nat_digits :: "nat \<Rightarrow> string" where
  "nat_digits n = (if n < 10 then [char_of (48 + n)] else nat_digits (n div 10) @ [char_of (48 + n mod 10)])"

definition str_of_int :: "int \<Rightarrow> string" where
  "str_of_int i = (if i < 0 then CHR ''-'' # nat_digits (nat (- i)) else nat_digits (nat i))"

text \<open>
  \<^verbatim>\<open>str(v)\<close>, exact on \<^verbatim>\<open>None\<close>, booleans, integers and strings; every other value is
  rendered by its type name only.
\<close>

fun py_str :: "pyval \<Rightarrow> string" where
  "py_str PNone = ''None''"
| "py_str (PBool b) = (if b then ''True'' else ''False'')"
| "py_str (PInt i) = str_of_int i"
| "py_str (PStr s) = s"
| "py_str v = ''<'' @ type_name v @ ''>''"

text \<open>
  \<^verbatim>\<open>template.format(**kws)\<close> for templates whose replacement fields are plain names in
  single braces: an unknown name raises \<^verbatim>\<open>KeyError\<close>, a brace without its partner
  \<^verbatim>\<open>ValueError\<close>. The second argument is the field name being read, if any.
\<close>

fun format_scan :: "(string \<times> pyval) list \<Rightarrow> string option \<Rightarrow> string \<Rightarrow> exc + string" where
  "format_scan kws None [] = Inr []"
| "format_scan kws (Some n) [] = Inl ValueError"
| "format_scan kws None (c # cs) =
     (if c = CHR ''{'' then format_scan kws (Some []) cs
      else if c = CHR ''}'' then Inl ValueError
      else (case format_scan kws None cs of Inl x \<Rightarrow> Inl x | Inr r \<Rightarrow> Inr (c # r)))"
| "format_scan kws (Some n) (c # cs) =
     (if c = CHR ''}'' then
        (case map_of kws n of
           None \<Rightarrow> Inl (KeyError n)
         | Some v \<Rightarrow> (case format_scan kws None cs of Inl x \<Rightarrow> Inl x | Inr r \<Rightarrow> Inr (py_str v @ r)))
      else format_scan kws (Some (n @ [c])) cs)"

definition py_format :: "string \<Rightarrow> (string \<times> pyval) list \<Rightarrow> exc + string" where
  "py_format template kws = format_scan kws None template"

text \<open>\<^verbatim>\<open>int(s)\<close> for a string: surrounding white space, an optional sign, decimal digits.\<close>

definition unsigned_int :: "string \<Rightarrow> exc + int" where
  "unsigned_int s = (if s \<noteq> [] \<and> list_all is_digit s then Inr (int (digits_val s)) else Inl ValueError)"

definition py_int :: "string \<Rightarrow> exc + int" where
  "py_int s =
     (case strip s of
        [] \<Rightarrow> Inl ValueError
      | c # cs \<Rightarrow>
          if c = CHR ''-'' then (case unsigned_int cs of Inl x \<Rightarrow> Inl x | Inr n \<Rightarrow> Inr (- n))
          else if c = CHR ''+'' then unsigned_int cs
          else unsigned_int (c # cs))"

text \<open>
  \<^verbatim>\<open>decimal.Decimal(s)\<close> for a string: an optional sign, then \<^verbatim>\<open>Inf\<close>, \<^verbatim>\<open>Infinity\<close>,
  \<^verbatim>\<open>NaN\<close>, \<^verbatim>\<open>sNaN\<close> in any case, or digits with an optional fraction and an optional
  exponent. The digit tuple has no leading zeros, and the exponent is the written one
  less the length of the fraction.
\<close>

definition coefficient :: "string \<Rightarrow> nat list" where
  "coefficient s =
     (case dropWhile (\<lambda>c. c = CHR ''0'') s of
        [] \<Rightarrow> [0]
      | ds \<Rightarrow> map digit_val ds)"

definition written_exponent :: "string \<Rightarrow> exc + int" where
  "written_exponent s =
     (case s of
        [] \<Rightarrow> Inr 0
      | c # cs \<Rightarrow>
          if lower_char c = CHR ''e'' then
            (case cs of
               [] \<Rightarrow> Inl DecimalException
             | d # ds \<Rightarrow>
                 (case (if d = CHR ''-'' then map_sum id uminus (unsigned_int ds)
                        else if d = CHR ''+'' then unsigned_int ds
                        else unsigned_int (d # ds)) of
                    Inl x \<Rightarrow> Inl DecimalException
                  | Inr n \<Rightarrow> Inr n))
          else Inl DecimalException)"

definition decimal_number :: "bool \<Rightarrow> string \<Rightarrow> exc + pydecimal" where
  "decimal_number sg s =
     (let intpart = takeWhile is_digit s;
          r1 = dropWhile is_digit s;
          has_point = (r1 \<noteq> [] \<and> hd r1 = CHR ''.'');
          fracpart = (if has_point then takeWhile is_digit (tl r1) else []);
          r2 = (if has_point then dropWhile is_digit (tl r1) else r1)
      in if intpart = [] \<and> fracpart = [] then Inl DecimalException
         else (case written_exponent r2 of
                 Inl x \<Rightarrow> Inl x
               | Inr ex \<Rightarrow> Inr (Finite sg (coefficient (intpart @ fracpart)) (ex - int (length fracpart)))))"

definition decimal_unsigned :: "bool \<Rightarrow> string \<Rightarrow> exc + pydecimal" where
  "decimal_unsigned sg s =
     (let l = lower s in
        if l = ''inf'' \<or> l = ''infinity'' then Inr (Infinity sg)
        else if take 3 l = ''nan'' \<and> list_all is_digit (drop 3 l) then Inr (NaN False)
        else if take 4 l = ''snan'' \<and> list_all is_digit (drop 4 l) then Inr (NaN True)
        else decimal_number sg s)"

definition py_Decimal :: "string \<Rightarrow> exc + pydecimal" where
  "py_Decimal s =
     (case strip s of
        [] \<Rightarrow> Inl DecimalException
      | c # cs \<Rightarrow>
          if c = CHR ''-'' then decimal_unsigned True cs
          else if c = CHR ''+'' then decimal_unsigned False cs
          else decimal_unsigned False (c # cs))"

text \<open>
  \<^verbatim>\<open>SortedDict(items)\<close>: a key seen again keeps its place and takes the new value; a
  list is not hashable. Keys are compared as values of the model, which is Python's
  \<^verbatim>\<open>==\<close> as long as the keys are all integers or all strings.
\<close>

fun hashable :: "pyval \<Rightarrow> bool" where
  "hashable (PList xs) = False"
| "hashable (PTuple xs) = (\<forall>x \<in> set xs. hashable x)"
| "hashable _ = True"

fun sorted_insert :: "pyval \<times> pyval \<Rightarrow> (pyval \<times> pyval) list \<Rightarrow> (pyval \<times> pyval) list" where
  "sorted_insert (k, v) [] = [(k, v)]"
| "sorted_insert (k, v) ((k', v') # rest) =
     (if k = k' then (k', v) # rest else (k', v') # sorted_insert (k, v) rest)"

definition py_SortedDict :: "(pyval \<times> pyval) list \<Rightarrow> exc + (pyval \<times> pyval) list" where
  "py_SortedDict items =
     (if list_all (\<lambda>kv. hashable (fst kv)) items
        then Inr (foldl (\<lambda>acc kv. sorted_insert kv acc) [] items)
      else Inl TypeError)"

text \<open>Django's limit validators on integers; comparing other values raises.\<close>

definition py_MaxValueValidator :: "pyval \<Rightarrow> string \<Rightarrow> pyval \<Rightarrow> exc option" where
  "py_MaxValueValidator limit message v =
     (case (v, limit) of
        (PInt a, PInt b) \<Rightarrow> if a > b then Some (ValidationError [message]) else None
      | _ \<Rightarrow> Some TypeError)"

definition py_MinValueValidator :: "pyval \<Rightarrow> string \<Rightarrow> pyval \<Rightarrow> exc option" where
  "py_MinValueValidator limit message v =
     (case (v, limit) of
        (PInt a, PInt b) \<Rightarrow> if a < b then Some (ValidationError [message]) else None
      | _ \<Rightarrow> Some TypeError)"

text \<open>
  The date and time library is not modelled. Its parsers are given by a table of what
  the library returns on the inputs of the example of the date and time fields:
  Django's \<^verbatim>\<open>parse_datetime\<close> finds no match in \<^verbatim>\<open>01/05/2021 10:00\<close> nor in
  \<^verbatim>\<open>not-a-date\<close>; \<^verbatim>\<open>strptime\<close> with the pattern \<^verbatim>\<open>%d/%m/%Y %H:%M\<close> reads the first as
  1 May 2021, 10:00, without time zone, and raises \<^verbatim>\<open>ValueError\<close> on the second. Off the
  table the functions raise an error of their own, which no class catches, so that
  nothing is said about the library there.
\<close>

definition not_tabulated :: exc where
  "not_tabulated = OtherError ''not tabulated''"

definition py_parse_datetime :: "pyval \<Rightarrow> exc + pydatetime option" where
  "py_parse_datetime v =
     (if v = PStr ''01/05/2021 10:00'' \<or> v = PStr ''not-a-date'' then Inr None
      else Inl not_tabulated)"

definition py_strptime :: "pyval \<Rightarrow> string \<Rightarrow> exc + pydatetime" where
  "py_strptime v fmt =
     (if v = PStr ''01/05/2021 10:00'' \<and> fmt = ''%d/%m/%Y %H:%M''
        then Inr (DateTime (Date 2021 5 1) (Time 10 0 0 0) None)
      else if v = PStr ''not-a-date'' \<and> fmt = ''%d/%m/%Y %H:%M'' then Inl ValueError
      else Inl not_tabulated)"

fun py_is_aware :: "pydatetime \<Rightarrow> bool" where
  "py_is_aware (DateTime d t z) = (z \<noteq> None)"

fun py_make_aware :: "pydatetime \<Rightarrow> tzinfo \<Rightarrow> pydatetime" where
  "py_make_aware (DateTime d t z) tz = DateTime d t (Some tz)"

text \<open>Exact for a value at offset zero; no example converts a value.\<close>

fun py_make_naive :: "pydatetime \<Rightarrow> pydatetime" where
  "py_make_naive (DateTime d t z) = DateTime d t None"

text \<open>
  The renderings of the formats for the messages come from a module that is not
  modelled either. \<open>py_ext\<close> leaves them empty; the example of the date and time fields
  puts an arbitrary rendering in their place.
\<close>

definition py_ext :: ext where
  "py_ext =
     \<lparr>text_type = py_str,
      smart_text = py_str,
      str_format = py_format,
      int_of_text = py_int,
      Decimal = py_Decimal,
      is_html_input = (\<lambda>v. False),
      parse_html_list = (\<lambda>v. v),
      parse_datetime = py_parse_datetime,
      parse_date = (\<lambda>v. Inl not_tabulated),
      parse_time = (\<lambda>v. Inl not_tabulated),
      strptime = py_strptime,
      datetime_formats = (\<lambda>fmts. []),
      date_formats = (\<lambda>fmts. []),
      time_formats = (\<lambda>fmts. []),
      is_aware = py_is_aware,
      make_aware = py_make_aware,
      make_naive = py_make_naive,
      SortedDict = py_SortedDict,
      MaxValueValidator = py_MaxValueValidator,
      MinValueValidator = py_MinValueValidator,
      ISO_8601 = ''iso-8601''\<rparr>"

section \<open>The fields of the worked examples\<close>

text \<open>\<^verbatim>\<open>exc.messages\<close> of what a validator raised, empty when it passed.\<close>

fun messages :: "exc option \<Rightarrow> string list" where
  "messages (Some (ValidationError msgs)) = msgs"
| "messages _ = []"

text \<open>\<^verbatim>\<open>IntegerField()\<close> and \<^verbatim>\<open>ListField(child=IntegerField())\<close>.\<close>

definition ex_IntegerField :: field where
  "ex_IntegerField = projr (IntegerField_init py_ext None None no_kwargs)"

definition ex_ListField :: field where
  "ex_ListField = projr (ListField_init (Some ex_IntegerField) no_kwargs)"

text \<open>\<^verbatim>\<open>ChoiceField(choices=[(1, 'One'), (2, 'Two')])\<close>.\<close>

definition ex_ChoiceField :: field where
  "ex_ChoiceField =
     projr (ChoiceField_init py_ext
              [PTuple [PInt 1, PStr ''One''], PTuple [PInt 2, PStr ''Two'']] no_kwargs)"

text \<open>\<^verbatim>\<open>DecimalField(max_digits=6, decimal_places=2)\<close>.\<close>

definition ex_DecimalField :: field where
  "ex_DecimalField = projr (DecimalField_init py_ext (Some 6) (Some 2) None None no_kwargs)"

text \<open>\<^verbatim>\<open>DecimalField(max_digits=2, decimal_places=2)\<close>.\<close>

definition ex_small_DecimalField :: field where
  "ex_small_DecimalField = projr (DecimalField_init py_ext (Some 2) (Some 2) None None no_kwargs)"




text \<open>
  \<^verbatim>\<open>CharField()\<close>; \<^verbatim>\<open>CharField(allow_blank=True, min_length=5)\<close> with a validator that
  rejects every value; \<^verbatim>\<open>CharField(allow_null=True)\<close>.
\<close>

definition ex_CharField :: field where
  "ex_CharField = projr (Field_init (CharField False None None) no_kwargs)"

definition ex_blank_CharField :: field where
  "ex_blank_CharField =
     projr (Field_init (CharField True None (Some 5))
              (no_kwargs\<lparr>kw_validators := [\<lambda>v. Some (ValidationError [''rejected''])]\<rparr>))"

definition ex_null_CharField :: field where
  "ex_null_CharField =
     projr (Field_init (CharField False None None) (no_kwargs\<lparr>kw_allow_null := True\<rparr>))"

text \<open>
  An integer field with three validators: the first and the third reject every value,
  the third with two messages.
\<close>

definition ex_validated_field :: field where
  "ex_validated_field =
     projr (Field_init IntegerField
              (no_kwargs\<lparr>kw_validators :=
                 [\<lambda>v. Some (ValidationError [''too small'']),
                  \<lambda>v. None,
                  \<lambda>v. Some (ValidationError [''not even'', ''not prime''])]\<rparr>))"

text \<open>The parent of the binding examples, and the dictionary \<^verbatim>\<open>{'a': {'b': 1}}\<close>.\<close>

definition ex_parent :: pyparent where
  "ex_parent = Parent ''Serializer'' None None"

definition ex_dict :: inst where
  "ex_dict = Obj [] (Some [(''a'', Has (Obj [] (Some [(''b'', Has (Prim (PInt 1)))])))])"

section \<open>Properties\<close>

subsection \<open>Shared facts\<close>

lemma fail_isl: "isl (fail e f key kws)"
  by (simp add: fail_def split: option.splits sum.splits)

lemma fail_validators:
  "fail e (Fld (a\<lparr>validators := vds\<rparr>) k) key kws = fail e (Fld a k) key kws"
  by (simp add: fail_def split: option.splits)

lemma Field_init_kind: "Field_init k kw = Inr f \<Longrightarrow> kind f = k"
  by (auto simp: Field_init_def Let_def split: if_splits)

lemma not_isl_collapse: "\<not> isl x \<Longrightarrow> x = Inr (projr x)"
  by simp

subsection \<open>Construction\<close>

text \<open>
  C8. \<^verbatim>\<open>Field.__init__\<close> checks the four invariants when the field is built. A field it
  returns satisfies \<open>read_only \<longrightarrow> \<not> write_only\<close>, \<open>read_only \<longrightarrow> \<not> required\<close>,
  \<open>read_only \<longrightarrow> default is empty\<close> and \<open>required \<longrightarrow> default is empty\<close>, and carries the
  arguments it was given; when \<^verbatim>\<open>required\<close> was left unset it is true exactly when no
  default was given and the field is not read-only. Arguments that break one of the
  invariants, in particular \<^verbatim>\<open>required=True\<close> with a default, make the constructor
  fail with an \<^verbatim>\<open>AssertionError\<close>.
\<close>

theorem Field_init_invariants:
  "(\<forall>f. Field_init k kw = Inr f \<longrightarrow>
        (read_only (attrs f) \<longrightarrow> \<not> write_only (attrs f)) \<and>
        (read_only (attrs f) \<longrightarrow> \<not> required (attrs f)) \<and>
        (read_only (attrs f) \<longrightarrow> is_empty (default_val (attrs f))) \<and>
        (required (attrs f) \<longrightarrow> is_empty (default_val (attrs f))) \<and>
        (kw_required kw = None \<longrightarrow>
           required (attrs f) = (is_empty (kw_default kw) \<and> \<not> kw_read_only kw)) \<and>
        read_only (attrs f) = kw_read_only kw \<and>
        write_only (attrs f) = kw_write_only kw \<and>
        default_val (attrs f) = kw_default kw) \<and>
   ((kw_read_only kw \<and> kw_write_only kw) \<or>
    (kw_read_only kw \<and> kw_required kw = Some True) \<or>
    (kw_read_only kw \<and> \<not> is_empty (kw_default kw)) \<or>
    (kw_required kw = Some True \<and> \<not> is_empty (kw_default kw))
      \<longrightarrow> (\<exists>msg. Field_init k kw = Inl (AssertionError msg)))"
  by (auto simp: Field_init_def Let_def split: option.splits if_splits)

text \<open>
  The witness: \<^verbatim>\<open>IntegerField(required=True, default=0)\<close> fails at construction, and
  \<^verbatim>\<open>IntegerField()\<close> is built required, not read-only and without a default.
\<close>

theorem Field_init_invariants_witness:
  "(\<exists>msg. Field_init IntegerField
             (no_kwargs\<lparr>kw_required := Some True, kw_default := Plain (PInt 0)\<rparr>)
           = Inl (AssertionError msg)) \<and>
   (\<exists>f. Field_init IntegerField no_kwargs = Inr f \<and> required (attrs f) \<and>
         \<not> read_only (attrs f) \<and> is_empty (default_val (attrs f)))"
proof -
  have bad: "kw_required (no_kwargs\<lparr>kw_required := Some True, kw_default := Plain (PInt 0)\<rparr>) = Some True \<and>
             \<not> is_empty (kw_default (no_kwargs\<lparr>kw_required := Some True, kw_default := Plain (PInt 0)\<rparr>))"
    by simp
  have built: "Field_init IntegerField no_kwargs = Inr (projr (Field_init IntegerField no_kwargs))"
    by (simp add: Field_init_def no_kwargs_def)
  have unset: "kw_required no_kwargs = None" "is_empty (kw_default no_kwargs)"
      "\<not> kw_read_only no_kwargs"
    by (simp_all add: no_kwargs_def)
  from Field_init_invariants
         [of IntegerField "no_kwargs\<lparr>kw_required := Some True, kw_default := Plain (PInt 0)\<rparr>",
          THEN conjunct2] bad
  have first: "\<exists>msg. Field_init IntegerField
                       (no_kwargs\<lparr>kw_required := Some True, kw_default := Plain (PInt 0)\<rparr>)
                     = Inl (AssertionError msg)"
    by blast
  from Field_init_invariants [of IntegerField no_kwargs, THEN conjunct1] built unset
  have "required (attrs (projr (Field_init IntegerField no_kwargs))) \<and>
        \<not> read_only (attrs (projr (Field_init IntegerField no_kwargs))) \<and>
        is_empty (default_val (attrs (projr (Field_init IntegerField no_kwargs))))"
    by metis
  with built first show ?thesis by blast
qed

subsection \<open>Binding\<close>

lemma bind_Inr:
  "bind n p f = Inr f1 \<Longrightarrow>
     source (attrs f) \<noteq> Some n \<and>
     f1 = Fld ((attrs f)
                \<lparr>field_name := Some n, parent := Some p,
                 label := Some (case label (attrs f) of
                                  None \<Rightarrow> capitalize (replace (CHR ''_'') (CHR '' '') n)
                                | Some l \<Rightarrow> l),
                 source := Some (case source (attrs f) of None \<Rightarrow> n | Some s \<Rightarrow> s),
                 source_attrs :=
                   Some (let src = (case source (attrs f) of None \<Rightarrow> n | Some s \<Rightarrow> s)
                         in if src = ''*'' then [] else split (CHR ''.'') src)\<rparr>) (kind f)"
  by (auto simp: bind_def Let_def split: if_splits option.splits)

text \<open>
  C9, as the code has it. \<^verbatim>\<open>Field.bind\<close> keeps no record of having run and has no
  check against running twice. On a field that was bound before, a second call fails
  only when the new field name equals the field's source, which after the first call
  is the explicit source or else the first field name; the failure is the assertion
  about a redundant source. Every other second call succeeds: it overwrites
  \<^verbatim>\<open>field_name\<close> and \<^verbatim>\<open>parent\<close> and leaves label, source and source_attrs as the first
  call set them.
\<close>

theorem bind_again:
  assumes "bind n1 p1 f = Inr f1"
  shows "bind n2 p2 f1 =
           (if source (attrs f1) = Some n2
              then Inl (AssertionError
                          (redundant_source n2 (class_name (kind f1)) (parent_class p2)))
            else Inr (Fld ((attrs f1)\<lparr>field_name := Some n2, parent := Some p2\<rparr>) (kind f1))) \<and>
         source (attrs f1) = Some (case source (attrs f) of None \<Rightarrow> n1 | Some s \<Rightarrow> s)"
  using bind_Inr [OF assms]
  by (auto simp: bind_def Let_def split: option.splits)

lemma ex_CharField_bound:
  "bind ''name'' ex_parent ex_CharField = Inr (projr (bind ''name'' ex_parent ex_CharField))"
proof -
  have "\<not> isl (bind ''name'' ex_parent ex_CharField)" by code_simp
  then show ?thesis by (rule not_isl_collapse)
qed

text \<open>
  The witness: a \<^verbatim>\<open>CharField()\<close> bound as \<^verbatim>\<open>name\<close> takes a second binding as \<^verbatim>\<open>title\<close>
  and refuses a second binding as \<^verbatim>\<open>name\<close>.
\<close>

theorem bind_again_witness:
  "\<not> isl (bind ''title'' ex_parent (projr (bind ''name'' ex_parent ex_CharField))) \<and>
   isl (bind ''name'' ex_parent (projr (bind ''name'' ex_parent ex_CharField)))"
proof -
  have src: "source (attrs ex_CharField) = None" by code_simp
  from bind_again [OF ex_CharField_bound, of "''title''" ex_parent]
       bind_again [OF ex_CharField_bound, of "''name''" ex_parent] src
  show ?thesis by simp
qed

text \<open>
  The claim as stated fails: the same \<^verbatim>\<open>CharField()\<close>, bound as \<^verbatim>\<open>name\<close>, is bound
  again as \<^verbatim>\<open>title\<close> without an error, and then carries the new field name.
\<close>

theorem bind_twice_counterexample:
  "\<not> isl (bind ''name'' ex_parent ex_CharField) \<and>
   \<not> isl (bind ''title'' ex_parent (projr (bind ''name'' ex_parent ex_CharField))) \<and>
   field_name (attrs (projr (bind ''title'' ex_parent (projr (bind ''name'' ex_parent ex_CharField)))))
     = Some ''title''"
  by code_simp

subsection \<open>The validator pipeline\<close>

lemma validators_loop_all:
  "\<forall>vd \<in> set vds. vd v = None \<or> (\<exists>msgs. vd v = Some (ValidationError msgs)) \<Longrightarrow>
   validators_loop vds v acc = Inr (acc @ concat (map (\<lambda>vd. messages (vd v)) vds))"
proof (induction vds arbitrary: acc)
  case Nil
  then show ?case by simp
next
  case (Cons vd vds)
  from Cons.prems
  have rest: "\<forall>vd \<in> set vds. vd v = None \<or> (\<exists>msgs. vd v = Some (ValidationError msgs))"
    by simp
  from Cons.prems have "vd v = None \<or> (\<exists>msgs. vd v = Some (ValidationError msgs))"
    by simp
  then show ?case
  proof
    assume "vd v = None"
    then show ?thesis using Cons.IH [OF rest] by simp
  next
    assume "\<exists>msgs. vd v = Some (ValidationError msgs)"
    then obtain msgs where "vd v = Some (ValidationError msgs)" ..
    then show ?thesis using Cons.IH [OF rest] by simp
  qed
qed

text \<open>
  C5. When every validator of the field either passes or raises a
  \<^verbatim>\<open>ValidationError\<close> on the value, \<^verbatim>\<open>run_validators\<close> gathers the messages of all of
  them, in the order of the validators, whether or not an earlier one raised: it
  raises one \<^verbatim>\<open>ValidationError\<close> with that list when the list is not empty and returns
  otherwise. In particular it returns when no validator raises.
\<close>

theorem run_validators_accumulates:
  assumes "\<forall>vd \<in> set (validators (attrs f)).
             vd v = None \<or> (\<exists>msgs. vd v = Some (ValidationError msgs))"
  shows "run_validators f v =
           (let errors = concat (map (\<lambda>vd. messages (vd v)) (validators (attrs f)))
            in if errors = [] then Inr () else Inl (ValidationError errors)) \<and>
         ((\<forall>vd \<in> set (validators (attrs f)). vd v = None) \<longrightarrow> run_validators f v = Inr ())"
proof -
  have eq: "run_validators f v =
           (let errors = concat (map (\<lambda>vd. messages (vd v)) (validators (attrs f)))
            in if errors = [] then Inr () else Inl (ValidationError errors))"
    by (simp add: run_validators_def validators_loop_all [OF assms] Let_def)
  have "\<forall>vd \<in> set (validators (attrs f)). vd v = None \<Longrightarrow>
        concat (map (\<lambda>vd. messages (vd v)) (validators (attrs f))) = []"
    by auto
  with eq show ?thesis by (simp add: Let_def)
qed

text \<open>
  The witness: of three validators the first and the last raise; the messages of
  both come back, first validator first.
\<close>

theorem run_validators_accumulates_witness:
  "run_validators ex_validated_field (PInt 1)
     = Inl (ValidationError [''too small'', ''not even'', ''not prime''])"
proof -
  have h: "\<forall>vd \<in> set (validators (attrs ex_validated_field)).
             vd (PInt 1) = None \<or> (\<exists>msgs. vd (PInt 1) = Some (ValidationError msgs))"
    by (simp add: ex_validated_field_def Field_init_def no_kwargs_def)
  have msgs: "concat (map (\<lambda>vd. messages (vd (PInt 1))) (validators (attrs ex_validated_field)))
                = [''too small'', ''not even'', ''not prime'']"
    by (simp add: ex_validated_field_def Field_init_def no_kwargs_def)
  from run_validators_accumulates [OF h, THEN conjunct1] show ?thesis
    by (simp add: msgs Let_def)
qed

subsection \<open>The entry point \<^verbatim>\<open>run_validation\<close>\<close>

text \<open>
  C2. For every field, \<^verbatim>\<open>run_validation\<close> on the marker \<^verbatim>\<open>empty\<close> raises
  \<^verbatim>\<open>SkipField\<close> when the root is in partial mode, else fails with \<^verbatim>\<open>required\<close> when the
  field is required, else gives what \<^verbatim>\<open>get_default\<close> gives. On \<^verbatim>\<open>None\<close>, and on the
  empty string when the class coerces blank to null, it fails with \<^verbatim>\<open>null\<close> unless
  \<^verbatim>\<open>allow_null\<close> is set and otherwise returns \<^verbatim>\<open>None\<close>; neither
  \<^verbatim>\<open>to_internal_value\<close> nor a validator takes part: the outcome is the same whatever
  validators the field holds and whatever \<^verbatim>\<open>to_internal_value\<close> a subclass supplies.
\<close>

theorem run_validation_absent_and_null:
  "run_validation e f Empty =
     (if root_partial f then Inl SkipField
      else if required (attrs f) then fail e f ''required'' []
      else get_default f) \<and>
   (data = PNone \<or> (data = PStr [] \<and> coerce_blank_to_null (kind f)) \<longrightarrow>
      run_validation e f data = (if allow_null (attrs f) then Inr PNone else fail e f ''null'' []) \<and>
      run_validation e (Fld ((attrs f)\<lparr>validators := vds\<rparr>) (kind f)) data = run_validation e f data \<and>
      (\<forall>n g g'. kind f = OtherField n g \<longrightarrow>
         run_validation e (Fld (attrs f) (OtherField n g')) data = run_validation e f data))"
proof -
  obtain a k where f: "f = Fld a k" by (cases f)
  have absent: "run_validation e f Empty =
     (if root_partial f then Inl SkipField
      else if required (attrs f) then fail e f ''required'' []
      else get_default f)"
    by (cases k) (simp_all add: f)
  have null: "run_validation e (Fld a' k') data =
                (if allow_null a' then Inr PNone else fail e (Fld a' k') ''null'' [])"
    if "data = PNone \<or> (data = PStr [] \<and> coerce_blank_to_null k')" for a' k'
    using that by (cases k') (auto simp: Let_def)
  have other: "fail e (Fld a (OtherField n g')) ''null'' [] = (fail e (Fld a (OtherField n g)) ''null'' [] :: exc + pyval)"
    for n g g'
    by (simp add: fail_def split: option.splits)
  show ?thesis
    using absent null [of k a] null [of k "a\<lparr>validators := vds\<rparr>"] other
    by (auto simp: f fail_validators null)
qed

text \<open>
  The witness: \<^verbatim>\<open>IntegerField()\<close>, required and not nullable, outside partial mode,
  fails with \<^verbatim>\<open>required\<close> on \<^verbatim>\<open>empty\<close> and with \<^verbatim>\<open>null\<close> on the empty string.
\<close>

theorem run_validation_absent_and_null_witness:
  "run_validation py_ext ex_IntegerField Empty = Inl (ValidationError [''This field is required.'']) \<and>
   run_validation py_ext ex_IntegerField (PStr []) = Inl (ValidationError [''This field may not be null.''])"
proof -
  have h: "PStr [] = PNone \<or> (PStr [] = PStr [] \<and> coerce_blank_to_null (kind ex_IntegerField))"
    by code_simp
  have cfg: "\<not> root_partial ex_IntegerField" "required (attrs ex_IntegerField)"
      "\<not> allow_null (attrs ex_IntegerField)"
    by code_simp+
  have msgs: "fail py_ext ex_IntegerField ''required'' [] =
                (Inl (ValidationError [''This field is required.'']) :: exc + pyval)"
      "fail py_ext ex_IntegerField ''null'' [] =
                (Inl (ValidationError [''This field may not be null.'']) :: exc + pyval)"
    by code_simp+
  note at_blank = run_validation_absent_and_null [of py_ext ex_IntegerField "PStr []"]
  from at_blank [THEN conjunct1] at_blank [THEN conjunct2, THEN mp, OF h, THEN conjunct1] cfg msgs
  show ?thesis by simp
qed

text \<open>
  C10. On the empty string a \<^verbatim>\<open>CharField\<close> with \<^verbatim>\<open>allow_blank\<close> returns the empty
  string, and one without fails with \<^verbatim>\<open>blank\<close>. Nothing else of the field enters:
  the outcome is the same for every list of validators, every \<^verbatim>\<open>min_length\<close> and
  \<^verbatim>\<open>max_length\<close>, every setting of \<^verbatim>\<open>required\<close>, \<^verbatim>\<open>allow_null\<close> and the default, and
  \<^verbatim>\<open>to_internal_value\<close> is not reached. In particular the field fails with \<^verbatim>\<open>blank\<close>
  also when \<^verbatim>\<open>allow_null\<close> is set.
\<close>

theorem CharField_run_validation_blank:
  assumes "kind f = CharField ab mx mn"
  shows "run_validation e f (PStr []) = (if ab then Inr (PStr []) else fail e f ''blank'' []) \<and>
         (\<not> ab \<longrightarrow> isl (run_validation e f (PStr []))) \<and>
         run_validation e (Fld ((attrs f)\<lparr>validators := vds, allow_null := an\<rparr>) (CharField ab mx' mn'))
           (PStr []) = run_validation e f (PStr [])"
proof -
  obtain a where f: "f = Fld a (CharField ab mx mn)"
    using assms by (cases f) simp
  show ?thesis
    by (simp add: f fail_isl) (simp add: fail_def split: option.splits)
qed

lemma ex_blank_CharField_kind: "kind ex_blank_CharField = CharField True None (Some 5)"
proof -
  have "\<not> isl (Field_init (CharField True None (Some 5))
              (no_kwargs\<lparr>kw_validators := [\<lambda>v. Some (ValidationError [''rejected''])]\<rparr>))"
    by code_simp
  from not_isl_collapse [OF this] show ?thesis
    unfolding ex_blank_CharField_def by (rule Field_init_kind)
qed

lemma ex_null_CharField_kind: "kind ex_null_CharField = CharField False None None"
proof -
  have "\<not> isl (Field_init (CharField False None None) (no_kwargs\<lparr>kw_allow_null := True\<rparr>))"
    by code_simp
  from not_isl_collapse [OF this] show ?thesis
    unfolding ex_null_CharField_def by (rule Field_init_kind)
qed

text \<open>
  The witness: a field with \<^verbatim>\<open>allow_blank\<close>, \<^verbatim>\<open>min_length=5\<close> and a validator that rejects
  everything returns the empty string; a field with \<^verbatim>\<open>allow_null\<close> and without
  \<^verbatim>\<open>allow_blank\<close> fails with \<^verbatim>\<open>blank\<close>.
\<close>

theorem CharField_run_validation_blank_witness:
  "run_validation py_ext ex_blank_CharField (PStr []) = Inr (PStr []) \<and>
   allow_null (attrs ex_null_CharField) \<and>
   run_validation py_ext ex_null_CharField (PStr []) = Inl (ValidationError [''This field may not be blank.''])"
proof -
  have an: "allow_null (attrs ex_null_CharField)" by code_simp
  have msg: "fail py_ext ex_null_CharField ''blank'' [] =
               (Inl (ValidationError [''This field may not be blank.'']) :: exc + pyval)"
    by code_simp
  from CharField_run_validation_blank [OF ex_blank_CharField_kind, of py_ext, THEN conjunct1]
       CharField_run_validation_blank [OF ex_null_CharField_kind, of py_ext, THEN conjunct1]
       an msg
  show ?thesis by simp
qed

subsection \<open>\<^verbatim>\<open>ChoiceField\<close>\<close>

lemma strings_to_values_snoc:
  "strings_to_values e (ks @ [k]) = (strings_to_values e ks)(text_type e k \<mapsto> k)"
  by (simp add: strings_to_values_def)

lemma strings_to_values_Some:
  "strings_to_values e ks s = Some k \<Longrightarrow> k \<in> set ks \<and> text_type e k = s"
proof (induction ks arbitrary: k rule: rev_induct)
  case Nil
  then show ?case by (simp add: strings_to_values_def)
next
  case (snoc x xs)
  then show ?case
    by (cases "text_type e x = s") (auto simp: strings_to_values_snoc)
qed

lemma strings_to_values_None:
  "(strings_to_values e ks s = None) = (\<forall>k \<in> set ks. text_type e k \<noteq> s)"
proof (induction ks rule: rev_induct)
  case Nil
  then show ?case by (simp add: strings_to_values_def)
next
  case (snoc x xs)
  then show ?case by (auto simp: strings_to_values_snoc)
qed

lemma ChoiceField_init_kind:
  assumes "ChoiceField_init e chs kw = Inr f"
  shows "\<exists>cs. SortedDict e (if list_all is_pair chs then map unpack chs
                              else map (\<lambda>item. (item, item)) chs) = Inr cs \<and>
              kind f = ChoiceField cs (strings_to_values e (map fst cs))"
  using assms
  by (auto simp: ChoiceField_init_def Let_def split: sum.splits dest: Field_init_kind)

text \<open>
  C4, as the code has it. Let the field be built by \<^verbatim>\<open>ChoiceField.__init__\<close> from
  \<^verbatim>\<open>choices\<close>, so that its \<^verbatim>\<open>choices\<close> are the items of the \<^verbatim>\<open>SortedDict\<close> of the
  pairs. When no key of the choices has the text of the input, \<^verbatim>\<open>to_internal_value\<close>
  fails with \<^verbatim>\<open>invalid_choice\<close>, while \<^verbatim>\<open>to_representation\<close> raises the \<^verbatim>\<open>KeyError\<close>
  of the failed dictionary lookup, not a validation error. When some key has the text
  of the input, both return one such key.
\<close>

theorem ChoiceField_lookup:
  assumes "ChoiceField_init e chs kw = Inr f"
  shows "SortedDict e (if list_all is_pair chs then map unpack chs
                       else map (\<lambda>item. (item, item)) chs) = Inr (choices (kind f)) \<and>
         ((\<forall>k \<in> fst ` set (choices (kind f)). text_type e k \<noteq> text_type e data) \<longrightarrow>
            to_internal_value e f data = fail e f ''invalid_choice'' [(''input'', data)] \<and>
            ChoiceField_to_representation e f data = Inl (KeyError (text_type e data))) \<and>
         ((\<exists>k \<in> fst ` set (choices (kind f)). text_type e k = text_type e data) \<longrightarrow>
            (\<exists>k \<in> fst ` set (choices (kind f)). text_type e k = text_type e data \<and>
               to_internal_value e f data = Inr k \<and>
               ChoiceField_to_representation e f data = Inr k))"
proof -
  from ChoiceField_init_kind [OF assms] obtain cs where
    sd: "SortedDict e (if list_all is_pair chs then map unpack chs
                       else map (\<lambda>item. (item, item)) chs) = Inr cs"
    and k: "kind f = ChoiceField cs (strings_to_values e (map fst cs))" by blast
  obtain a where f: "f = Fld a (ChoiceField cs (strings_to_values e (map fst cs)))"
    using k by (cases f) simp
  have tiv: "to_internal_value e f data = ChoiceField_to_internal_value e f data"
    by (simp add: f)
  show ?thesis
  proof (cases "strings_to_values e (map fst cs) (text_type e data)")
    case None
    then have "\<forall>k \<in> fst ` set cs. text_type e k \<noteq> text_type e data"
      by (simp add: strings_to_values_None)
    with None sd k show ?thesis
      by (auto simp: tiv ChoiceField_to_internal_value_def ChoiceField_to_representation_def)
  next
    case (Some v)
    from strings_to_values_Some [OF Some]
    have "v \<in> fst ` set cs" "text_type e v = text_type e data"
      by auto
    with Some sd k show ?thesis
      by (auto simp: tiv ChoiceField_to_internal_value_def ChoiceField_to_representation_def)
  qed
qed

lemma ex_ChoiceField_built:
  "ChoiceField_init py_ext [PTuple [PInt 1, PStr ''One''], PTuple [PInt 2, PStr ''Two'']] no_kwargs
     = Inr ex_ChoiceField"
proof -
  have "\<not> isl (ChoiceField_init py_ext
                 [PTuple [PInt 1, PStr ''One''], PTuple [PInt 2, PStr ''Two'']] no_kwargs)"
    by code_simp
  then show ?thesis unfolding ex_ChoiceField_def by (rule not_isl_collapse)
qed

text \<open>
  The witness: with the choices \<^verbatim>\<open>[(1, 'One'), (2, 'Two')]\<close> the input \<^verbatim>\<open>'1'\<close> gives the
  integer 1, and \<^verbatim>\<open>'9'\<close> fails with \<^verbatim>\<open>invalid_choice\<close> in \<^verbatim>\<open>to_internal_value\<close> and with
  \<^verbatim>\<open>KeyError\<close> in \<^verbatim>\<open>to_representation\<close>.
\<close>

theorem ChoiceField_lookup_witness:
  "to_internal_value py_ext ex_ChoiceField (PStr ''1'') = Inr (PInt 1) \<and>
   to_internal_value py_ext ex_ChoiceField (PStr ''9'')
     = Inl (ValidationError [''`9` is not a valid choice.'']) \<and>
   ChoiceField_to_representation py_ext ex_ChoiceField (PStr ''9'') = Inl (KeyError ''9'')"
proof -
  have h9: "\<forall>k \<in> fst ` set (choices (kind ex_ChoiceField)).
              text_type py_ext k \<noteq> text_type py_ext (PStr ''9'')"
    by code_simp
  have h1: "\<exists>k \<in> fst ` set (choices (kind ex_ChoiceField)).
              text_type py_ext k = text_type py_ext (PStr ''1'')"
    by code_simp
  have one: "\<forall>k \<in> fst ` set (choices (kind ex_ChoiceField)).
               text_type py_ext k = text_type py_ext (PStr ''1'') \<longrightarrow> k = PInt 1"
    by code_simp
  have msg: "fail py_ext ex_ChoiceField ''invalid_choice'' [(''input'', PStr ''9'')]
               = (Inl (ValidationError [''`9` is not a valid choice.'']) :: exc + pyval)"
    by code_simp
  have t9: "text_type py_ext (PStr ''9'') = ''9''" by code_simp
  note nine = ChoiceField_lookup [OF ex_ChoiceField_built, of "PStr ''9''",
                THEN conjunct2, THEN conjunct1, THEN mp, OF h9]
  from ChoiceField_lookup [OF ex_ChoiceField_built, of "PStr ''1''",
         THEN conjunct2, THEN conjunct2, THEN mp, OF h1]
  obtain k where k: "k \<in> fst ` set (choices (kind ex_ChoiceField))"
      "text_type py_ext k = text_type py_ext (PStr ''1'')"
      "to_internal_value py_ext ex_ChoiceField (PStr ''1'') = Inr k"
    by auto
  from one k(1,2) have "k = PInt 1" by blast
  with k(3) nine show ?thesis by (simp add: msg t9)
qed

text \<open>
  The claim as stated fails for \<^verbatim>\<open>to_representation\<close>: on a value that is no choice it
  raises \<^verbatim>\<open>KeyError\<close>, which is not the \<^verbatim>\<open>invalid_choice\<close> failure that
  \<^verbatim>\<open>to_internal_value\<close> gives on the same value.
\<close>

theorem ChoiceField_to_representation_counterexample:
  "ChoiceField_to_representation py_ext ex_ChoiceField (PInt 9) = Inl (KeyError ''9'') \<and>
   ChoiceField_to_representation py_ext ex_ChoiceField (PInt 9)
     \<noteq> fail py_ext ex_ChoiceField ''invalid_choice'' [(''input'', PInt 9)] \<and>
   to_internal_value py_ext ex_ChoiceField (PInt 9)
     = fail py_ext ex_ChoiceField ''invalid_choice'' [(''input'', PInt 9)]"
  by code_simp

subsection \<open>\<^verbatim>\<open>ListField\<close>\<close>

lemma comprehension_all:
  "\<forall>x \<in> set xs. \<not> isl (g x) \<Longrightarrow> comprehension g xs = Inr (map (\<lambda>x. projr (g x)) xs)"
  by (induction xs) (auto split: sum.splits)

lemma comprehension_first:
  "i < length xs \<Longrightarrow> g (xs ! i) = Inl err \<Longrightarrow> \<forall>j < i. \<not> isl (g (xs ! j)) \<Longrightarrow>
   comprehension g xs = Inl err"
proof (induction xs arbitrary: i)
  case Nil
  then show ?case by simp
next
  case (Cons x xs)
  show ?case
  proof (cases i)
    case 0
    with Cons.prems show ?thesis by simp
  next
    case (Suc n)
    with Cons.prems have n: "n < length xs" "g (xs ! n) = Inl err" by simp_all
    from Cons.prems Suc have "\<forall>j < n. \<not> isl (g (xs ! j))" by auto
    from Cons.IH [OF n this] have rest: "comprehension g xs = Inl err" .
    from Cons.prems Suc have "\<not> isl (g x)" by auto
    then show ?thesis using rest by (auto split: sum.splits)
  qed
qed

text \<open>
  C1, as the code has it. \<^verbatim>\<open>ListField.to_internal_value\<close> fails with \<^verbatim>\<open>not_a_list\<close>
  on a string and on a value that cannot be iterated. Otherwise it runs the child's
  \<^verbatim>\<open>run_validation\<close> on the elements in order. When every element validates, the
  result is the list of the validated values. The first element that fails ends the
  call: its exception is the outcome as the child raised it, without the element's
  position, and the elements after it play no part.
\<close>

theorem ListField_to_internal_value_first_error:
  fixes e f c data
  defines "data' \<equiv> (if is_html_input e data then parse_html_list e data else data)"
  defines "rv \<equiv> run_validation e (with_parent (as_parent f) c)"
  assumes k: "kind f = ListField c"
  shows "(is_str data' \<or> \<not> has_iter data' \<longrightarrow>
            to_internal_value e f data =
              fail e f ''not_a_list'' [(''input_type'', PStr (type_name data'))]) \<and>
         (\<not> is_str data' \<and> has_iter data' \<and> (\<forall>x \<in> set (iter_items data'). \<not> isl (rv x)) \<longrightarrow>
            to_internal_value e f data = Inr (PList (map (\<lambda>x. projr (rv x)) (iter_items data')))) \<and>
         (\<not> is_str data' \<and> has_iter data' \<and> i < length (iter_items data') \<and>
          rv (iter_items data' ! i) = Inl err \<and> (\<forall>j < i. \<not> isl (rv (iter_items data' ! j))) \<longrightarrow>
            to_internal_value e f data = Inl err)"
proof -
  obtain a where f: "f = Fld a (ListField c)"
    using k by (cases f) simp
  show ?thesis
    unfolding data'_def rv_def f
    by (auto simp: Let_def comprehension_all comprehension_first)
qed

lemma ListField_init_kind:
  "ListField_init (Some c) kw = Inr f \<Longrightarrow> \<exists>c'. kind f = ListField c'"
  by (auto simp: ListField_init_def split: sum.splits)

lemma ex_ListField_kind: "kind ex_ListField = ListField (child (kind ex_ListField))"
proof -
  have "\<not> isl (ListField_init (Some ex_IntegerField) no_kwargs)" by code_simp
  from not_isl_collapse [OF this] have "\<exists>c'. kind ex_ListField = ListField c'"
    unfolding ex_ListField_def by (rule ListField_init_kind)
  then show ?thesis by auto
qed

text \<open>
  The witness: on \<^verbatim>\<open>['1', 'abc', '3']\<close> the element at index 1 is the first to fail,
  and the outcome is the error of the integer child; on \<^verbatim>\<open>['1', '2', '3']\<close> every
  element validates.
\<close>

theorem ListField_to_internal_value_first_error_witness:
  "to_internal_value py_ext ex_ListField (PList [PStr ''1'', PStr ''abc'', PStr ''3''])
     = Inl (ValidationError [''A valid integer is required.'']) \<and>
   to_internal_value py_ext ex_ListField (PList [PStr ''1'', PStr ''2'', PStr ''3''])
     = Inr (PList [PInt 1, PInt 2, PInt 3])"
proof -
  let ?rv = "run_validation py_ext (with_parent (as_parent ex_ListField) (child (kind ex_ListField)))"
  let ?bad = "PList [PStr ''1'', PStr ''abc'', PStr ''3'']"
  let ?good = "PList [PStr ''1'', PStr ''2'', PStr ''3'']"
  let ?d = "\<lambda>data. if is_html_input py_ext data then parse_html_list py_ext data else data"
  have hb: "\<not> is_str (?d ?bad) \<and> has_iter (?d ?bad) \<and> 1 < length (iter_items (?d ?bad)) \<and>
            ?rv (iter_items (?d ?bad) ! 1) = Inl (ValidationError [''A valid integer is required.'']) \<and>
            (\<forall>j < 1. \<not> isl (?rv (iter_items (?d ?bad) ! j)))"
    by code_simp
  have hg: "\<not> is_str (?d ?good) \<and> has_iter (?d ?good) \<and>
            (\<forall>x \<in> set (iter_items (?d ?good)). \<not> isl (?rv x))"
    by code_simp
  have vals: "map (\<lambda>x. projr (?rv x)) (iter_items (?d ?good)) = [PInt 1, PInt 2, PInt 3]"
    by code_simp
  from ListField_to_internal_value_first_error [OF ex_ListField_kind, of py_ext ?bad 1,
         THEN conjunct2, THEN conjunct2, THEN mp, OF hb]
       ListField_to_internal_value_first_error [OF ex_ListField_kind, of py_ext ?good,
         THEN conjunct2, THEN conjunct1, THEN mp, OF hg]
  show ?thesis by (simp only: vals)
qed

text \<open>
  The claim as stated fails: on \<^verbatim>\<open>['1', 'abc', '3']\<close> the outcome is the bare message of
  the child, with no index 1 in it and no values for the indices 0 and 2; and on
  \<^verbatim>\<open>['1', 'abc', 'xyz']\<close>, with a second bad element, the outcome is the same single
  message, so the last element was not validated.
\<close>

theorem ListField_no_aggregation_counterexample:
  "to_internal_value py_ext ex_ListField (PList [PStr ''1'', PStr ''abc'', PStr ''3''])
     = Inl (ValidationError [''A valid integer is required.'']) \<and>
   to_internal_value py_ext ex_ListField (PList [PStr ''1'', PStr ''abc'', PStr ''xyz''])
     = Inl (ValidationError [''A valid integer is required.''])"
  by code_simp

subsection \<open>\<^verbatim>\<open>DecimalField\<close>\<close>

lemma to_internal_value_DecimalField:
  "kind f = DecimalField md dp \<Longrightarrow> to_internal_value e f v = DecimalField_to_internal_value e f v"
  by (cases f) simp

lemma DecimalField_invalid:
  assumes "Decimal e (strip (smart_text e v)) = Inl DecimalException \<or>
           Decimal e (strip (smart_text e v)) = Inr (NaN False) \<or>
           (\<exists>s. Decimal e (strip (smart_text e v)) = Inr (Infinity s))"
  shows "DecimalField_to_internal_value e f v = fail e f ''invalid'' []"
  using assms by (auto simp: DecimalField_to_internal_value_def)

lemma DecimalField_signalling:
  assumes "Decimal e (strip (smart_text e v)) = Inr (NaN True)"
  shows "DecimalField_to_internal_value e f v = Inl DecimalException"
  using assms by (simp add: DecimalField_to_internal_value_def)

lemma DecimalField_finite:
  assumes "kind f = DecimalField md dp"
    and "Decimal e (strip (smart_text e v)) = Inr (Finite sg ds ex)"
  shows "DecimalField_to_internal_value e f v =
           (if md \<noteq> None \<and> (if \<bar>ex\<bar> > int (length ds) then \<bar>ex\<bar> else int (length ds)) > the md
              then fail e f ''max_digits'' [(''max_digits'', PInt (the md))]
            else if dp \<noteq> None \<and> \<bar>ex\<bar> > the dp
              then fail e f ''max_decimal_places'' [(''max_decimal_places'', PInt (the dp))]
            else if md \<noteq> None \<and> dp \<noteq> None \<and>
                    (if \<bar>ex\<bar> > int (length ds) then \<bar>ex\<bar> else int (length ds)) - \<bar>ex\<bar>
                      > the md - the dp
              then fail e f ''max_whole_digits'' [(''max_whole_digits'', PInt (the md - the dp))]
            else Inr (PDecimal (Finite sg ds ex)))"
  by (simp add: DecimalField_to_internal_value_def assms Let_def)

text \<open>
  What the code does on every input. Let \<open>d\<close> be what \<^verbatim>\<open>decimal.Decimal\<close> makes of the
  stripped text of the input. The field fails with \<^verbatim>\<open>invalid\<close> when that raises, when
  \<open>d\<close> is the quiet NaN and when \<open>d\<close> is an infinity; on the signalling NaN the
  exception of the comparison escapes. For a finite \<open>d\<close> with digit tuple \<open>ds\<close> and
  exponent \<open>ex\<close> the code takes the magnitude of the exponent as the count of decimal
  places, and as the count of digits the length of the tuple, or the count of decimal
  places when that is larger; it checks \<^verbatim>\<open>max_digits\<close>, \<^verbatim>\<open>decimal_places\<close> and the whole
  digits in this order and returns \<open>d\<close> when no limit is exceeded.
\<close>

lemma DecimalField_limits:
  fixes e f v
  defines "d \<equiv> Decimal e (strip (smart_text e v))"
  assumes k: "kind f = DecimalField md dp"
  shows "((d = Inl DecimalException \<or> d = Inr (NaN False) \<or> (\<exists>s. d = Inr (Infinity s))) \<longrightarrow>
            to_internal_value e f v = fail e f ''invalid'' []) \<and>
         (d = Inr (NaN True) \<longrightarrow> to_internal_value e f v = Inl DecimalException) \<and>
         (d = Inr (Finite sg ds ex) \<longrightarrow>
            (let decimals = \<bar>ex\<bar>;
                 digits = (if decimals > int (length ds) then decimals else int (length ds));
                 whole_digits = digits - decimals
             in
               (md = Some m \<and> digits > m \<longrightarrow>
                  to_internal_value e f v = fail e f ''max_digits'' [(''max_digits'', PInt m)]) \<and>
               ((\<forall>m'. md = Some m' \<longrightarrow> digits \<le> m') \<and> dp = Some p \<and> decimals > p \<longrightarrow>
                  to_internal_value e f v =
                    fail e f ''max_decimal_places'' [(''max_decimal_places'', PInt p)]) \<and>
               ((\<forall>m'. md = Some m' \<longrightarrow> digits \<le> m') \<and> (\<forall>p'. dp = Some p' \<longrightarrow> decimals \<le> p') \<and>
                md = Some m \<and> dp = Some p \<and> whole_digits > m - p \<longrightarrow>
                  to_internal_value e f v =
                    fail e f ''max_whole_digits'' [(''max_whole_digits'', PInt (m - p))]) \<and>
               ((\<forall>m'. md = Some m' \<longrightarrow> digits \<le> m') \<and> (\<forall>p'. dp = Some p' \<longrightarrow> decimals \<le> p') \<and>
                (\<forall>m' p'. md = Some m' \<and> dp = Some p' \<longrightarrow> whole_digits \<le> m' - p') \<longrightarrow>
                  to_internal_value e f v = Inr (PDecimal (Finite sg ds ex))))) \<and>
         (d = Inr (Finite sg ds ex) \<and> md = Some n \<and> dp = Some n \<and>
          int (length ds) \<le> \<bar>ex\<bar> \<and> \<bar>ex\<bar> \<le> n \<longrightarrow>
            to_internal_value e f v = Inr (PDecimal (Finite sg ds ex)))"
proof (intro conjI impI)
  assume "d = Inl DecimalException \<or> d = Inr (NaN False) \<or> (\<exists>s. d = Inr (Infinity s))"
  then show "to_internal_value e f v = fail e f ''invalid'' []"
    unfolding d_def to_internal_value_DecimalField [OF k] by (rule DecimalField_invalid)
next
  assume "d = Inr (NaN True)"
  then show "to_internal_value e f v = Inl DecimalException"
    unfolding d_def to_internal_value_DecimalField [OF k] by (rule DecimalField_signalling)
next
  assume fin: "d = Inr (Finite sg ds ex)"
  note eq = DecimalField_finite [OF k fin [unfolded d_def]]
  show "let decimals = \<bar>ex\<bar>;
            digits = (if decimals > int (length ds) then decimals else int (length ds));
            whole_digits = digits - decimals
        in
          (md = Some m \<and> digits > m \<longrightarrow>
             to_internal_value e f v = fail e f ''max_digits'' [(''max_digits'', PInt m)]) \<and>
          ((\<forall>m'. md = Some m' \<longrightarrow> digits \<le> m') \<and> dp = Some p \<and> decimals > p \<longrightarrow>
             to_internal_value e f v =
               fail e f ''max_decimal_places'' [(''max_decimal_places'', PInt p)]) \<and>
          ((\<forall>m'. md = Some m' \<longrightarrow> digits \<le> m') \<and> (\<forall>p'. dp = Some p' \<longrightarrow> decimals \<le> p') \<and>
           md = Some m \<and> dp = Some p \<and> whole_digits > m - p \<longrightarrow>
             to_internal_value e f v =
               fail e f ''max_whole_digits'' [(''max_whole_digits'', PInt (m - p))]) \<and>
          ((\<forall>m'. md = Some m' \<longrightarrow> digits \<le> m') \<and> (\<forall>p'. dp = Some p' \<longrightarrow> decimals \<le> p') \<and>
           (\<forall>m' p'. md = Some m' \<and> dp = Some p' \<longrightarrow> whole_digits \<le> m' - p') \<longrightarrow>
             to_internal_value e f v = Inr (PDecimal (Finite sg ds ex)))"
    unfolding Let_def to_internal_value_DecimalField [OF k] eq
    by (cases md; cases dp) auto
next
  assume "d = Inr (Finite sg ds ex) \<and> md = Some n \<and> dp = Some n \<and>
          int (length ds) \<le> \<bar>ex\<bar> \<and> \<bar>ex\<bar> \<le> n"
  then have fin: "d = Inr (Finite sg ds ex)" and rest: "md = Some n" "dp = Some n"
      "int (length ds) \<le> \<bar>ex\<bar>" "\<bar>ex\<bar> \<le> n" by simp_all
  show "to_internal_value e f v = Inr (PDecimal (Finite sg ds ex))"
    unfolding to_internal_value_DecimalField [OF k] DecimalField_finite [OF k fin [unfolded d_def]]
    using rest by simp
qed

lemma add_limit_kind: "add_limit e key mk limit f = Inr f' \<Longrightarrow> kind f' = kind f"
  by (auto simp: add_limit_def append_validator_def split: option.splits sum.splits)

lemma add_limits_kind: "add_limits e mx mn f = Inr f' \<Longrightarrow> kind f' = kind f"
  by (auto simp: add_limits_def split: sum.splits) (metis add_limit_kind)

lemma DecimalField_init_kind:
  "DecimalField_init e md dp mx mn kw = Inr f \<Longrightarrow> kind f = DecimalField md dp"
  by (auto simp: DecimalField_init_def split: sum.splits) (metis add_limits_kind Field_init_kind)

lemma ex_DecimalField_kind: "kind ex_DecimalField = DecimalField (Some 6) (Some 2)"
proof -
  have "\<not> isl (DecimalField_init py_ext (Some 6) (Some 2) None None no_kwargs)" by code_simp
  from not_isl_collapse [OF this] show ?thesis
    unfolding ex_DecimalField_def by (rule DecimalField_init_kind)
qed

text \<open>
  With \<^verbatim>\<open>max_digits=6\<close> and \<^verbatim>\<open>decimal_places=2\<close> the input \<^verbatim>\<open>'3.14159'\<close>, six digits of
  which five are decimal places, fails with \<^verbatim>\<open>max_decimal_places\<close>.
\<close>

lemma DecimalField_limits_example:
  "Decimal py_ext (strip (smart_text py_ext (PStr ''3.14159'')))
     = Inr (Finite False [3, 1, 4, 1, 5, 9] (- 5)) \<and>
   to_internal_value py_ext ex_DecimalField (PStr ''3.14159'')
     = Inl (ValidationError [''Ensure that there are no more than 2 decimal places.''])"
proof -
  have d: "Decimal py_ext (strip (smart_text py_ext (PStr ''3.14159'')))
             = Inr (Finite False [3, 1, 4, 1, 5, 9] (- 5))"
    by code_simp
  have msg: "fail py_ext ex_DecimalField ''max_decimal_places'' [(''max_decimal_places'', PInt 2)]
               = (Inl (ValidationError [''Ensure that there are no more than 2 decimal places.''])
                   :: exc + pyval)"
    by code_simp
  from DecimalField_limits [OF ex_DecimalField_kind, of py_ext "PStr ''3.14159''" False
         "[3, 1, 4, 1, 5, 9]" "- 5" 6 2, THEN conjunct2, THEN conjunct2, THEN conjunct1, THEN mp, OF d]
  have "to_internal_value py_ext ex_DecimalField (PStr ''3.14159'')
          = fail py_ext ex_DecimalField ''max_decimal_places'' [(''max_decimal_places'', PInt 2)]"
    by (simp add: Let_def)
  with d msg show ?thesis by simp
qed

text \<open>
  The counts follow the magnitude of the exponent also when the exponent is positive:
  with \<^verbatim>\<open>max_digits=2\<close> and \<^verbatim>\<open>decimal_places=2\<close> the input \<^verbatim>\<open>'1E+2'\<close> is accepted, while the
  same number written \<^verbatim>\<open>'100'\<close> fails with \<^verbatim>\<open>max_digits\<close>.
\<close>

lemma DecimalField_positive_exponent:
  "to_internal_value py_ext ex_small_DecimalField (PStr ''1E+2'') = Inr (PDecimal (Finite False [1] 2)) \<and>
   to_internal_value py_ext ex_small_DecimalField (PStr ''100'')
     = Inl (ValidationError [''Ensure that there are no more than 2 digits in total.''])"
  by code_simp

text \<open>
  C6, at the input where the code departs from it. The claim has the field fail with
  \<^verbatim>\<open>invalid\<close> on NaN. On the input \<^verbatim>\<open>'sNaN'\<close>, which \<^verbatim>\<open>decimal.Decimal\<close> reads as the
  signalling NaN, the field does not fail with \<^verbatim>\<open>invalid\<close>: the comparison
  \<^verbatim>\<open>value != value\<close> that is to find the NaN raises \<^verbatim>\<open>decimal.InvalidOperation\<close>, and the
  exception leaves \<^verbatim>\<open>to_internal_value\<close>. On the quiet \<^verbatim>\<open>'NaN'\<close> the field fails with
  \<^verbatim>\<open>invalid\<close>, as the comment at the comparison intends of every NaN.
\<close>

theorem DecimalField_signalling_NaN:
  "Decimal py_ext (strip (smart_text py_ext (PStr ''sNaN''))) = Inr (NaN True) \<and>
   to_internal_value py_ext ex_DecimalField (PStr ''sNaN'') = Inl DecimalException \<and>
   to_internal_value py_ext ex_DecimalField (PStr ''sNaN'')
     \<noteq> fail py_ext ex_DecimalField ''invalid'' [] \<and>
   to_internal_value py_ext ex_DecimalField (PStr ''NaN'')
     = Inl (ValidationError [''A valid number is required.''])"
  by code_simp

subsection \<open>The date and time fields\<close>














subsection \<open>The attribute path resolver\<close>

text \<open>
  What holds of \<^verbatim>\<open>get_attribute\<close>: a step whose attribute lookup raises
  \<^verbatim>\<open>ObjectDoesNotExist\<close> makes the result \<^verbatim>\<open>None\<close>; a step whose attribute lookup raises
  \<^verbatim>\<open>AttributeError\<close> is tried as a key lookup, and when that raises \<^verbatim>\<open>KeyError\<close>,
  \<^verbatim>\<open>TypeError\<close> or \<^verbatim>\<open>AttributeError\<close> the first \<^verbatim>\<open>AttributeError\<close> is raised; when the
  key lookup succeeds its value is returned at once, whatever steps remain.
\<close>

lemma get_attribute_does_not_exist:
  "getattr instance attr = Inl ObjectDoesNotExist \<Longrightarrow>
   get_attribute instance (attr # rest) = Inr (Prim PNone)"
  by simp

lemma get_attribute_both_fail:
  "getattr instance attr = Inl (AttributeError m) \<Longrightarrow>
   getitem instance attr = Inl x \<Longrightarrow> x = TypeError \<or> (\<exists>k. x = KeyError k) \<or> (\<exists>m'. x = AttributeError m') \<Longrightarrow>
   get_attribute instance (attr # rest) = Inl (AttributeError m)"
  by auto

lemma get_attribute_key_lookup_returns:
  "getattr instance attr = Inl (AttributeError m) \<Longrightarrow> getitem instance attr = Inr v \<Longrightarrow>
   get_attribute instance (attr # rest) = Inr v"
  by simp

text \<open>
  C3, at the input where the code departs from it. The claim has the resolver go on
  with the remaining steps after a key lookup that succeeds. On the dictionary
  \<^verbatim>\<open>{'a': {'b': 1}}\<close> and the path \<^verbatim>\<open>['a', 'b']\<close> the code returns the inner dictionary,
  the value of the first step, and not 1: the \<^verbatim>\<open>return\<close> in the fallback leaves the
  loop.
\<close>

theorem get_attribute_nested_dict:
  "get_attribute ex_dict [''a'', ''b''] = Inr (Obj [] (Some [(''b'', Has (Prim (PInt 1)))])) \<and>
   get_attribute ex_dict [''a'', ''b''] \<noteq> Inr (Prim (PInt 1)) \<and>
   get_attribute ex_dict [''a'', ''b''] = get_attribute ex_dict [''a'']"
  by (simp add: ex_dict_def no_attribute_def)

end
